theory Spec2Isabelle
  imports Complex_Main
begin

section \<open>The sspBC bid adapter and the unicornId submodule\<close>

text \<open>
  A shallow embedding of \<^verbatim>\<open>modules/sspBCBidAdapter.js\<close> and
  \<^verbatim>\<open>modules/unicornIdSystem.js\<close>.

  Conventions of the model.
  \<^item> A JavaScript string is a \<open>string\<close>; an optional member of an object is an
    \<open>option\<close>, \<open>None\<close> standing for \<^verbatim>\<open>undefined\<close>.
  \<^item> A string is truthy when it is present and not empty (\<open>truthy\<close>).
  \<^item> Numbers that come from JSON are \<open>int\<close> where OpenRTB says integer (asset ids, type
    codes, creative dimensions), \<open>nat\<close> for the slot sizes and counters, and \<open>rat\<close> for
    prices and floors.
  \<^item> The module-level objects \<^verbatim>\<open>adUnitsCalled\<close>, \<^verbatim>\<open>adSizesCalled\<close> and
    \<^verbatim>\<open>oneCodeDetection\<close> are maps of their own properties, passed in and returned; where
    the code reads one of them, the members that every object inherits are modelled too.
  \<^item> An exception is a value \<open>Inl e\<close> of a sum type. \<^verbatim>\<open>interpretResponse\<close> raises what its
    call of the converter library raises; its other raising operations on well-typed input
    sit inside its \<^verbatim>\<open>try\<close> block.
\<close>

subsection \<open>JavaScript helpers\<close>

datatype js_error = TypeError | SyntaxError | PlainError

definition truthy :: "string option \<Rightarrow> bool" where
  "truthy v = (case v of None \<Rightarrow> False | Some s \<Rightarrow> s \<noteq> [])"

text \<open>\<^verbatim>\<open>String.prototype.padStart(targetLength, padString)\<close>: the pad string is repeated and
  cut to the missing length; nothing is added when the string is long enough or the pad
  string is empty.\<close>

definition padStart :: "string \<Rightarrow> nat \<Rightarrow> string \<Rightarrow> string" where
  "padStart s targetLength padString =
     (if targetLength \<le> length s \<or> padString = [] then s
      else take (targetLength - length s) (concat (replicate (targetLength - length s) padString)) @ s)"

text \<open>Decimal rendering of a number, as a template literal or \<^verbatim>\<open>join\<close> produces it.\<close>

definition digit_char :: "nat \<Rightarrow> char" where
  "digit_char d = ''0123456789'' ! d"

function string_of_nat :: "nat \<Rightarrow> string" where
  "string_of_nat n = (if n < 10 then [digit_char n] else string_of_nat (n div 10) @ [digit_char (n mod 10)])"
  by pat_completeness auto
termination
  by (relation "measure id") auto

declare string_of_nat.simps [simp del]

subsection \<open>Native assets\<close>

text \<open>\<^verbatim>\<open>nativeAssetMap\<close>, in the order a \<^verbatim>\<open>for ... in\<close> loop visits its keys.\<close>

definition nativeAssetMap :: "(string \<times> int) list" where
  "nativeAssetMap =
     [(''title'', 0), (''cta'', 1), (''icon'', 2), (''image'', 3), (''body'', 4), (''sponsoredBy'', 5)]"

fun for_in_assetMap :: "(string \<times> int) list \<Rightarrow> int \<Rightarrow> string option" where
  "for_in_assetMap [] i = None"
| "for_in_assetMap ((assetName, assetId) # rest) i =
     (if assetId = i then Some assetName else for_in_assetMap rest i)"

text \<open>\<^verbatim>\<open>getNativeAssetType\<close> reads the module variable \<^verbatim>\<open>nativeAssetMap\<close>; the map is a
  parameter of \<open>getNativeAssetType_with\<close> so that a statement can range over it. An absent
  id compares false with 10 and equals no entry of the map.\<close>

definition getNativeAssetType_with :: "(string \<times> int) list \<Rightarrow> int option \<Rightarrow> string option" where
  "getNativeAssetType_with assetMap aid =
     (case aid of
        None \<Rightarrow> None
      | Some i \<Rightarrow> if i > 10 then Some ''image'' else for_in_assetMap assetMap i)"

definition getNativeAssetType :: "int option \<Rightarrow> string option" where
  "getNativeAssetType aid = getNativeAssetType_with nativeAssetMap aid"

record native_img =
  img_w :: "int option"
  img_h :: "int option"
  img_url :: "string option"
  img_type :: "int option"

record native_title =
  title_text :: "string option"

record native_data =
  data_type :: "int option"
  data_value :: "string option"

record native_asset =
  asset_id :: "int option"
  asset_img :: "native_img option"
  asset_title :: "native_title option"
  asset_data :: "native_data option"

record native_link =
  link_url :: "string option"
  link_clicktrackers :: "string list option"

datatype jstracker = JsTrackerArray "string list" | JsTrackerString string

record native_payload =
  np_link :: "native_link option"
  np_imptrackers :: "string list option"
  np_jstracker :: "jstracker option"
  np_assets :: "native_asset list option"

record native_image =
  image_url :: "string option"
  image_width :: "int option"
  image_height :: "int option"

record native_result =
  clickUrl :: "string option"
  clickTrackers :: "string list"
  impressionTrackers :: "string list option"
  javascriptTrackers :: "string list option"
  nr_title :: "string option"
  nr_image :: "native_image option"
  nr_icon :: "native_image option"
  nr_sponsoredBy :: "string option"
  nr_body :: "string option"
  nr_cta :: "string option"

text \<open>The replacement text of \<^verbatim>\<open>String.prototype.replace\<close> for one match: in the
  replacement string \<^verbatim>\<open>$$\<close> stands for a dollar sign, \<^verbatim>\<open>$&\<close> for the matched text, a
  dollar sign with a backquote for the text before the match and with a quote for the text
  after it. The pattern has no groups, so every other dollar sign stands for itself.\<close>

fun expand_replacement :: "string \<Rightarrow> string \<Rightarrow> string \<Rightarrow> string \<Rightarrow> string" where
  "expand_replacement matched preceding following [] = []"
| "expand_replacement matched preceding following [c] = [c]"
| "expand_replacement matched preceding following (c # d # rest) =
     (if c = CHR ''$'' \<and> d = CHR ''$'' then CHR ''$'' # expand_replacement matched preceding following rest
      else if c = CHR ''$'' \<and> d = CHR ''&'' then matched @ expand_replacement matched preceding following rest
      else if c = CHR ''$'' \<and> d = CHR 0x60 then preceding @ expand_replacement matched preceding following rest
      else if c = CHR ''$'' \<and> d = CHR 0x27 then following @ expand_replacement matched preceding following rest
      else c # expand_replacement matched preceding following (d # rest))"

text \<open>\<^verbatim>\<open>tracker.replace(new RegExp(pat, 'g'), replacement)\<close> for a pattern of plain characters:
  every occurrence, left to right, is replaced; \<open>preceding\<close> is the text already passed.\<close>

function replace_all :: "string \<Rightarrow> string \<Rightarrow> string \<Rightarrow> string \<Rightarrow> string" where
  "replace_all pat replacement preceding [] = []"
| "replace_all pat replacement preceding (c # cs) =
     (if pat \<noteq> [] \<and> take (length pat) (c # cs) = pat
      then expand_replacement pat preceding (drop (length pat - 1) cs) replacement @
           replace_all pat replacement (preceding @ pat) (drop (length pat - 1) cs)
      else c # replace_all pat replacement (preceding @ [c]) cs)"
  by pat_completeness auto
termination
  by (relation "measure (\<lambda>(pat, replacement, preceding, s). length s)") auto

text \<open>\<^verbatim>\<open>macroReplacer\<close>: the macro \<^verbatim>\<open>%native_dom_id%\<close> becomes the ad unit code.\<close>

definition macroReplacer :: "string \<Rightarrow> string \<Rightarrow> string" where
  "macroReplacer adUnitCode tracker = replace_all ''%native_dom_id%'' adUnitCode [] tracker"

text \<open>The body of \<^verbatim>\<open>nativeData.assets.forEach\<close>: one asset updates the result.\<close>

definition parse_asset :: "native_result \<Rightarrow> native_asset \<Rightarrow> native_result" where
  "parse_asset result asset =
     (let img = asset_img asset;
          imgWidth = (case img of None \<Rightarrow> None | Some i \<Rightarrow> img_w i);
          imgHeight = (case img of None \<Rightarrow> None | Some i \<Rightarrow> img_h i);
          imgUrl = (case img of None \<Rightarrow> None | Some i \<Rightarrow> img_url i);
          imgType = (case img of None \<Rightarrow> None | Some i \<Rightarrow> img_type i);
          dataType = (case asset_data asset of None \<Rightarrow> None | Some d \<Rightarrow> data_type d);
          dataValue = (case asset_data asset of None \<Rightarrow> None | Some d \<Rightarrow> data_value d);
          titleText = (case asset_title asset of None \<Rightarrow> None | Some t \<Rightarrow> title_text t);
          detectedType = getNativeAssetType (asset_id asset);
          r1 = (if truthy titleText then result\<lparr>nr_title := titleText\<rparr> else result);
          thisImage = \<lparr>image_url = imgUrl, image_width = imgWidth, image_height = imgHeight\<rparr>;
          r2 = (if truthy imgUrl
                then (if imgType = Some 3 \<or> detectedType = Some ''image''
                      then r1\<lparr>nr_image := Some thisImage\<rparr>
                      else if imgType = Some 1 \<or> detectedType = Some ''icon''
                      then r1\<lparr>nr_icon := Some thisImage\<rparr>
                      else r1)
                else r1)
      in (if truthy dataValue
          then (if dataType = Some 1 \<or> detectedType = Some ''sponsoredBy''
                then r2\<lparr>nr_sponsoredBy := dataValue\<rparr>
                else if dataType = Some 2 \<or> detectedType = Some ''body''
                then r2\<lparr>nr_body := dataValue\<rparr>
                else if dataType = Some 12 \<or> detectedType = Some ''cta''
                then r2\<lparr>nr_cta := dataValue\<rparr>
                else r2)
          else r2))"

text \<open>\<^verbatim>\<open>parseNative\<close>. A payload without an \<^verbatim>\<open>assets\<close> array raises a TypeError at
  \<^verbatim>\<open>nativeData.assets.forEach\<close>. A \<^verbatim>\<open>jstracker\<close> that is an empty string stays falsy.\<close>

definition parseNative :: "native_payload \<Rightarrow> string \<Rightarrow> js_error + native_result" where
  "parseNative nativeData adUnitCode =
     (let link = np_link nativeData;
          javascriptTrackers =
            (case np_jstracker nativeData of
               None \<Rightarrow> None
             | Some (JsTrackerArray ts) \<Rightarrow> Some ts
             | Some (JsTrackerString t) \<Rightarrow> if t = [] then None else Some [t]);
          result = \<lparr>clickUrl = (case link of None \<Rightarrow> None | Some l \<Rightarrow> link_url l),
                    clickTrackers =
                      (case link of None \<Rightarrow> []
                       | Some l \<Rightarrow> (case link_clicktrackers l of None \<Rightarrow> [] | Some cts \<Rightarrow> cts)),
                    impressionTrackers = np_imptrackers nativeData,
                    javascriptTrackers = map_option (map (macroReplacer adUnitCode)) javascriptTrackers,
                    nr_title = None, nr_image = None, nr_icon = None,
                    nr_sponsoredBy = None, nr_body = None, nr_cta = None\<rparr>
      in case np_assets nativeData of
           None \<Rightarrow> Inl TypeError
         | Some assets \<Rightarrow> Inr (foldl parse_asset result assets))"

subsection \<open>The unicornId submodule\<close>

text \<open>The values \<^verbatim>\<open>decode\<close> can be handed, by their \<^verbatim>\<open>typeof\<close>.\<close>

datatype js_value =
    JString string
  | JNumber rat
  | JBoolean bool
  | JObject "(string \<times> string) list"
  | JNull
  | JUndefined

fun typeof :: "js_value \<Rightarrow> string" where
  "typeof (JString s) = ''string''"
| "typeof (JNumber n) = ''number''"
| "typeof (JBoolean b) = ''boolean''"
| "typeof (JObject fs) = ''object''"
| "typeof JNull = ''object''"
| "typeof JUndefined = ''undefined''"

record unicorn_decoded =
  unicornId :: string

record id_response =
  id_field :: "string option"

definition ID_TOKEN :: string where
  "ID_TOKEN = ''unicornToken''"

definition decode :: "js_value \<Rightarrow> unicorn_decoded option" where
  "decode v = (if typeof v = ''string''
               then (case v of JString s \<Rightarrow> Some \<lparr>unicornId = s\<rparr> | _ \<Rightarrow> None)
               else None)"

text \<open>\<^verbatim>\<open>getId\<close>: \<open>getDataFromLocalStorage\<close> is the storage manager's read, a string or
  nothing for each key.\<close>

definition getId :: "(string \<Rightarrow> string option) \<Rightarrow> id_response" where
  "getId getDataFromLocalStorage = \<lparr>id_field = getDataFromLocalStorage ID_TOKEN\<rparr>"

subsection \<open>Bid requests and the impression id\<close>

record bid_params =
  p_id :: "string option"
  p_siteId :: "string option"

text \<open>\<^verbatim>\<open>params\<close> is an object in an auction's bid request and a one-element array in the
  data of a timeout.\<close>

datatype params_value = ParamsObject bid_params | ParamsArray "bid_params list"

definition no_params :: bid_params where
  "no_params = \<lparr>p_id = None, p_siteId = None\<rparr>"

record floor_query =
  fq_mediaType :: string
  fq_size :: "(nat \<times> nat) option"
  fq_currency :: string

record floor_info =
  fi_floor :: "rat option"
  fi_currency :: "string option"

record bid_request =
  bidId :: string
  adUnitCode :: string
  sizes :: "(nat \<times> nat) list"
  params :: "params_value option"
  getFloor :: "(floor_query \<Rightarrow> floor_info) option"

text \<open>The id that \<^verbatim>\<open>converter.imp\<close> gives the impression:
  \<^verbatim>\<open>id && siteId ? id.padStart(3, '0') : 'bidid-' + bidId\<close>, with
  \<^verbatim>\<open>{ id, siteId } = params\<close> and \<^verbatim>\<open>params = {}\<close> by default. An array has neither
  member.\<close>

definition imp_id :: "bid_request \<Rightarrow> string" where
  "imp_id bidRequest =
     (let ps = (case params bidRequest of
                  None \<Rightarrow> no_params
                | Some (ParamsObject p) \<Rightarrow> p
                | Some (ParamsArray _) \<Rightarrow> no_params)
      in case p_id ps of
           None \<Rightarrow> ''bidid-'' @ bidId bidRequest
         | Some i \<Rightarrow> if i \<noteq> [] \<and> truthy (p_siteId ps) then padStart i 3 ''0''
                     else ''bidid-'' @ bidId bidRequest)"

text \<open>\<^verbatim>\<open>unpackParams\<close>: the first element of an array, the object itself otherwise,
  \<^verbatim>\<open>{}\<close> when that is missing.\<close>

definition unpackParams :: "params_value option \<Rightarrow> bid_params" where
  "unpackParams bidParams =
     (case bidParams of
        None \<Rightarrow> no_params
      | Some (ParamsObject p) \<Rightarrow> p
      | Some (ParamsArray []) \<Rightarrow> no_params
      | Some (ParamsArray (p # _)) \<Rightarrow> p)"

text \<open>The id that the filter of \<^verbatim>\<open>interpretResponse\<close> compares with \<^verbatim>\<open>impid\<close>:
  \<^verbatim>\<open>id && siteId ? id : 'bidid-' + bidId\<close>.\<close>

definition currentBidId :: "bid_request \<Rightarrow> string" where
  "currentBidId b =
     (let ps = unpackParams (params b)
      in case p_id ps of
           None \<Rightarrow> ''bidid-'' @ bidId b
         | Some i \<Rightarrow> if i \<noteq> [] \<and> truthy (p_siteId ps) then i else ''bidid-'' @ bidId b)"

subsection \<open>Floors\<close>

definition DEFAULT_CURRENCY :: string where
  "DEFAULT_CURRENCY = ''PLN''"

text \<open>\<^verbatim>\<open>getCurrency\<close>; the argument is \<^verbatim>\<open>config.getConfig('currency.adServerCurrency')\<close>.\<close>

definition getCurrency :: "string option \<Rightarrow> string" where
  "getCurrency adServerCurrency =
     (case adServerCurrency of
        None \<Rightarrow> DEFAULT_CURRENCY
      | Some c \<Rightarrow> if c \<noteq> [] then c else DEFAULT_CURRENCY)"

text \<open>\<^verbatim>\<open>const { floor: x = 0 } = slot.getFloor(...)\<close>.\<close>

definition floor_or_0 :: "floor_info \<Rightarrow> rat" where
  "floor_or_0 info = (case fi_floor info of None \<Rightarrow> 0 | Some f \<Rightarrow> f)"

record highest_floor =
  hf_floor :: rat
  hf_currency :: string

definition bannerFloor_of :: "(floor_query \<Rightarrow> floor_info) \<Rightarrow> string \<Rightarrow> (nat \<times> nat) list \<Rightarrow> rat" where
  "bannerFloor_of gf currency szs =
     (if szs \<noteq> []
      then foldl (\<lambda>prev next.
                    let currentFloor = floor_or_0 (gf \<lparr>fq_mediaType = ''banner'', fq_size = Some next,
                                                       fq_currency = currency\<rparr>)
                    in if prev > currentFloor then prev else currentFloor) 0 szs
      else 0)"

definition getHighestFloor :: "string option \<Rightarrow> bid_request \<Rightarrow> highest_floor" where
  "getHighestFloor adServerCurrency slot =
     (let currency = getCurrency adServerCurrency
      in case getFloor slot of
           None \<Rightarrow> \<lparr>hf_floor = 0, hf_currency = currency\<rparr>
         | Some gf \<Rightarrow>
             (let bannerFloor = bannerFloor_of gf currency (sizes slot);
                  nativeFloor = floor_or_0 (gf \<lparr>fq_mediaType = ''native'', fq_size = None,
                                                 fq_currency = currency\<rparr>);
                  videoFloor = floor_or_0 (gf \<lparr>fq_mediaType = ''video'', fq_size = None,
                                                fq_currency = currency\<rparr>)
              in \<lparr>hf_floor = max bannerFloor (max nativeFloor videoFloor), hf_currency = currency\<rparr>))"

subsection \<open>Size labels\<close>

text \<open>Arithmetic on numbers is arithmetic on doubles. A natural below \<open>2 ^ 53\<close>, the
  \<open>safe_limit\<close>, is a double; the sum or product of two of them is the double nearest to
  the exact result, the even one of two that are equally near. The widths, heights and
  counters of the model are naturals below that limit.\<close>

function bit_length :: "nat \<Rightarrow> nat" where
  "bit_length n = (if n = 0 then 0 else Suc (bit_length (n div 2)))"
  by pat_completeness auto
termination
  by (relation "measure id") auto

declare bit_length.simps [simp del]

definition safe_limit :: nat where
  "safe_limit = 2 ^ 53"

definition round_double :: "nat \<Rightarrow> nat" where
  "round_double n =
     (if n < safe_limit then n
      else (let k = bit_length n - 53;
                q = n div 2 ^ k;
                r = n mod 2 ^ k
            in if 2 ^ k < 2 * r \<or> (2 * r = 2 ^ k \<and> odd q) then (q + 1) * 2 ^ k else q * 2 ^ k))"

record label_state =
  adUnitsCalled :: "string \<rightharpoonup> string"
  adSizesCalled :: "string \<rightharpoonup> nat"

text \<open>\<^verbatim>\<open>adUnitsCalled\<close> and \<^verbatim>\<open>adSizesCalled\<close> are plain objects. Reading \<^verbatim>\<open>obj[key]\<close> gives
  the own property when there is one, and else the member that every object inherits under
  that name, when the name is one of these.\<close>

definition Object_prototype_members :: "string list" where
  "Object_prototype_members =
     [''constructor'', ''hasOwnProperty'', ''isPrototypeOf'', ''propertyIsEnumerable'',
      ''toLocaleString'', ''toString'', ''valueOf'', ''__proto__'', ''__defineGetter__'',
      ''__defineSetter__'', ''__lookupGetter__'', ''__lookupSetter__'']"

definition inherited_member :: "string \<Rightarrow> bool" where
  "inherited_member key = (key \<in> set Object_prototype_members)"

definition join_x :: "nat \<times> nat \<Rightarrow> string" where
  "join_x sz = string_of_nat (fst sz) @ ''x'' @ string_of_nat (snd sz)"

text \<open>The largest size: \<^verbatim>\<open>reduce\<close> without an initial value starts from the first size, and
  a later size of the same area replaces an earlier one.\<close>

definition impSize :: "(nat \<times> nat) list \<Rightarrow> string" where
  "impSize szs =
     (case szs of
        [] \<Rightarrow> ''1x1''
      | s # rest \<Rightarrow>
          join_x (foldl (\<lambda>prev next.
                           if round_double (fst prev * snd prev) \<le> round_double (fst next * snd next)
                           then next else prev)
                        s rest))"

text \<open>The value of \<^verbatim>\<open>ext.data.pbsize\<close>: a label, or the inherited member that
  \<^verbatim>\<open>adUnitsCalled\<close> gives under the ad unit code.\<close>

datatype pbsize_value = Label string | Inherited_member string

text \<open>The body of \<^verbatim>\<open>if (!adUnitsCalled[adUnitCode])\<close>. The key of \<^verbatim>\<open>adSizesCalled\<close> is a
  size, which starts with a digit and so names no inherited member.\<close>

definition new_adunit :: "label_state \<Rightarrow> string \<Rightarrow> (nat \<times> nat) list \<Rightarrow> label_state \<times> pbsize_value" where
  "new_adunit st code szs =
     (let sz = impSize szs;
          n = (case adSizesCalled st sz of
                 None \<Rightarrow> 1
               | Some k \<Rightarrow> if k \<noteq> 0 then round_double (k + 1) else 1);
          label = sz @ ''_'' @ string_of_nat n
      in (st\<lparr>adSizesCalled := (adSizesCalled st)(sz \<mapsto> n),
             adUnitsCalled := (adUnitsCalled st)(code \<mapsto> label)\<rparr>, Label label))"

text \<open>The label of an impression and the two maps after it. An ad unit code that names an
  inherited member, with no label stored under it, reads as already seen.\<close>

definition assign_pbsize ::
  "label_state \<Rightarrow> string \<Rightarrow> (nat \<times> nat) list \<Rightarrow> label_state \<times> pbsize_value" where
  "assign_pbsize st code szs =
     (case adUnitsCalled st code of
        Some (c # cs) \<Rightarrow> (st, Label (c # cs))
      | Some [] \<Rightarrow> new_adunit st code szs
      | None \<Rightarrow> if inherited_member code then (st, Inherited_member code)
                 else new_adunit st code szs)"

text \<open>The members that \<^verbatim>\<open>converter.imp\<close> sets itself. The \<^verbatim>\<open>native\<close> and \<^verbatim>\<open>video\<close>
  members come from the library's \<^verbatim>\<open>buildImp\<close> and are not part of the model.\<close>

record imp =
  imp_ident :: string
  tagid :: string
  bidfloor :: rat
  bidfloorcur :: string
  pbsize :: pbsize_value

definition converter_imp :: "string option \<Rightarrow> label_state \<Rightarrow> bid_request \<Rightarrow> label_state \<times> imp" where
  "converter_imp adServerCurrency st bidRequest =
     (let hf = getHighestFloor adServerCurrency bidRequest;
          (st', label) = assign_pbsize st (adUnitCode bidRequest) (sizes bidRequest)
      in (st', \<lparr>imp_ident = imp_id bidRequest, tagid = adUnitCode bidRequest,
                bidfloor = hf_floor hf, bidfloorcur = hf_currency hf, pbsize = label\<rparr>))"

text \<open>The impressions of a sequence of bid requests, built one after the other on the same
  two maps.\<close>

fun build_imps :: "string option \<Rightarrow> label_state \<Rightarrow> bid_request list \<Rightarrow> label_state \<times> imp list" where
  "build_imps cfg st [] = (st, [])"
| "build_imps cfg st (b # bs) =
     (let (st1, i) = converter_imp cfg st b;
          (st2, is) = build_imps cfg st1 bs
      in (st2, i # is))"

definition initial_labels :: label_state where
  "initial_labels = \<lparr>adUnitsCalled = Map.empty, adSizesCalled = Map.empty\<rparr>"

subsection \<open>The response\<close>

record bid_ext =
  ext_siteid :: "string option"
  ext_slotid :: "string option"
  ext_pubid :: "string option"
  ext_adlabel :: "string option"
  ext_cache :: "string option"
  ext_vurls :: "string list option"
  ext_pricepl :: "rat option"

record server_bid =
  sb_adomain :: "string list option"
  sb_crid :: "string option"
  sb_impid :: "string option"
  sb_exp :: "nat option"
  sb_ext :: "bid_ext option"
  sb_price :: "rat option"
  sb_w :: "int option"
  sb_h :: "int option"
  sb_adm :: "string option"
  sb_admNative :: "native_payload option"

record seat_bid =
  seat :: "string option"
  bid :: "server_bid list"

record server_response =
  sn :: "string option"
  cur :: "string option"
  seatbid :: "seat_bid list option"

record site_data =
  site_id :: "string option"
  site_slot :: "string option"
  site_publisherId :: "string option"
  site_adLabel :: "string option"
  site_sn :: "string option"

record bidder_request =
  auctionId :: "string option"
  bids :: "bid_request list"

text \<open>The request handed back to \<^verbatim>\<open>interpretResponse\<close>. \<open>data_site\<close> stands for
  \<^verbatim>\<open>request.data\<close>, the text that \<^verbatim>\<open>buildRequests\<close> made of the payload with
  \<^verbatim>\<open>JSON.stringify\<close>: it is kept as \<^verbatim>\<open>JSON.parse(request.data).site\<close>, the one member that
  is read from it, and is absent when \<^verbatim>\<open>request.data\<close> is.\<close>

record server_request =
  bidderRequest :: bidder_request
  data_site :: "site_data option"

record bid_meta =
  advertiserDomains :: "string list option"
  networkName :: "string option"
  pricepl :: "rat option"

record bid_result =
  requestId :: string
  creativeId :: string
  cpm :: "rat option"
  currency :: "string option"
  ttl :: nat
  width :: "int option"
  height :: "int option"
  bidderCode :: string
  meta :: bid_meta
  netRevenue :: bool
  vurls :: "string list"
  mediaType :: "string option"
  adType :: "string option"
  ad :: "string option"
  vastXml :: "string option"
  vastContent :: "string option"
  vastUrl :: "string option"
  native :: "native_result option"

definition BIDDER_CODE :: string where
  "BIDDER_CODE = ''sspBC''"

text \<open>A template literal renders a missing value as \<^verbatim>\<open>undefined\<close>.\<close>

definition template_str :: "string option \<Rightarrow> string" where
  "template_str v = (case v of None \<Rightarrow> ''undefined'' | Some s \<Rightarrow> s)"

text \<open>\<^verbatim>\<open>strIncludes(target, elem)\<close> on strings: \<open>elem\<close> occurs somewhere in \<open>target\<close>.\<close>

fun strIncludes :: "string \<Rightarrow> string \<Rightarrow> bool" where
  "strIncludes [] elem = (elem = [])"
| "strIncludes (c # cs) elem = (take (length elem) (c # cs) = elem \<or> strIncludes cs elem)"

text \<open>\<^verbatim>\<open>isVideoAd\<close>: \<^verbatim>\<open>adm\<close> matches \<^verbatim>\<open>/^<\?xml/\<close>.\<close>

definition isVideoAd :: "server_bid \<Rightarrow> bool" where
  "isVideoAd serverBid = (case sb_adm serverBid of None \<Rightarrow> False | Some a \<Rightarrow> take 5 a = ''<?xml'')"

definition is_quote :: "char \<Rightarrow> bool" where
  "is_quote c = (c = CHR 0x27 \<or> c = CHR 0x22)"

text \<open>\<^verbatim>\<open>isNativeAd\<close>: \<^verbatim>\<open>admNative\<close> is set, or \<^verbatim>\<open>adm\<close> starts with a brace, a quote,
  the word native and a quote.\<close>

definition isNativeAd :: "server_bid \<Rightarrow> bool" where
  "isNativeAd serverBid =
     (sb_admNative serverBid \<noteq> None \<or>
      (case sb_adm serverBid of
         None \<Rightarrow> False
       | Some a \<Rightarrow> (case a of
            b # q1 # rest \<Rightarrow> b = CHR ''{'' \<and> is_quote q1 \<and> take 6 rest = ''native'' \<and>
                             (case drop 6 rest of [] \<Rightarrow> False | q2 # _ \<Rightarrow> is_quote q2)
          | _ \<Rightarrow> False)))"

text \<open>The filter over \<^verbatim>\<open>bidderRequest.bids\<close> and its first hit.\<close>

definition find_bidRequest :: "bid_request list \<Rightarrow> string option \<Rightarrow> bid_request option" where
  "find_bidRequest bs impid =
     (case filter (\<lambda>b. Some (currentBidId b) = impid) bs of
        [] \<Rightarrow> None
      | b # _ \<Rightarrow> Some b)"

text \<open>The body of the \<^verbatim>\<open>try\<close> block of a native bid. \<open>JSON_parse_native adm\<close> stands for
  \<^verbatim>\<open>JSON.parse(serverBid.adm).native\<close>: an error when the text is not JSON, no value when
  the document has no such member (\<^verbatim>\<open>parseNative\<close> then fails on its first line).\<close>

definition try_native ::
  "(string \<Rightarrow> js_error + native_payload option) \<Rightarrow> server_bid \<Rightarrow> string \<Rightarrow> js_error + native_result" where
  "try_native JSON_parse_native serverBid code =
     (case sb_admNative serverBid of
        Some nativeData \<Rightarrow> parseNative nativeData code
      | None \<Rightarrow>
         (case sb_adm serverBid of
            None \<Rightarrow> Inl SyntaxError
          | Some a \<Rightarrow>
             (case JSON_parse_native a of
                Inl e \<Rightarrow> Inl e
              | Inr None \<Rightarrow> Inl TypeError
              | Inr (Some nativeData) \<Rightarrow> parseNative nativeData code)))"

record parse_state =
  ps_site :: site_data
  ps_oneCodeDetection :: "string \<rightharpoonup> (string \<times> string option)"
  ps_bids :: "bid_result list"

text \<open>The site data after a bid: \<^verbatim>\<open>siteid = site.id\<close> and \<^verbatim>\<open>slotid = site.slot\<close> by
  default, the publisher id and the label as the bid has them.\<close>

definition update_site :: "site_data \<Rightarrow> server_bid \<Rightarrow> site_data" where
  "update_site site serverBid =
     (let ext = sb_ext serverBid;
          siteid = (case ext of None \<Rightarrow> site_id site
                    | Some e \<Rightarrow> (case ext_siteid e of None \<Rightarrow> site_id site | Some v \<Rightarrow> Some v));
          slotid = (case ext of None \<Rightarrow> site_slot site
                    | Some e \<Rightarrow> (case ext_slotid e of None \<Rightarrow> site_slot site | Some v \<Rightarrow> Some v))
      in site\<lparr>site_id := siteid, site_slot := slotid,
              site_publisherId := (case ext of None \<Rightarrow> None | Some e \<Rightarrow> ext_pubid e),
              site_adLabel := (case ext of None \<Rightarrow> None | Some e \<Rightarrow> ext_adlabel e)\<rparr>)"

text \<open>The bid object before its media type is known. The default creative id is made from
  the slot that the site data held before this bid.\<close>

definition base_bid ::
  "bidder_request \<Rightarrow> server_response \<Rightarrow> string option \<Rightarrow> site_data \<Rightarrow> bid_request \<Rightarrow> server_bid \<Rightarrow> bid_result" where
  "base_bid breq response seatName site_before bidRequest serverBid =
     (let ext = sb_ext serverBid
      in \<lparr>requestId = bidId bidRequest,
          creativeId = (case sb_crid serverBid of
                          Some c \<Rightarrow> c
                        | None \<Rightarrow> ''mcad_'' @ template_str (auctionId breq) @ ''_'' @
                                    template_str (site_slot site_before)),
          cpm = sb_price serverBid,
          currency = cur response,
          ttl = (case sb_exp serverBid of None \<Rightarrow> 300 | Some e \<Rightarrow> e),
          width = sb_w serverBid,
          height = sb_h serverBid,
          bidderCode = BIDDER_CODE,
          meta = \<lparr>advertiserDomains = sb_adomain serverBid, networkName = seatName,
                   pricepl = (case ext of None \<Rightarrow> None | Some e \<Rightarrow> ext_pricepl e)\<rparr>,
          netRevenue = True,
          vurls = (case ext of None \<Rightarrow> []
                   | Some e \<Rightarrow> (case ext_vurls e of None \<Rightarrow> [] | Some vs \<Rightarrow> vs)),
          mediaType = None, adType = None, ad = None, vastXml = None, vastContent = None,
          vastUrl = None, native = None\<rparr>)"

text \<open>Video, native or banner; a native payload that cannot be read sets the price to 0.\<close>

definition classify_bid ::
  "(string \<Rightarrow> js_error + native_payload option) \<Rightarrow> bid_request \<Rightarrow> server_bid \<Rightarrow> bid_result \<Rightarrow> bid_result" where
  "classify_bid JSON_parse_native bidRequest serverBid b =
     (if isVideoAd serverBid
      then b\<lparr>adType := Some ''instream'', mediaType := Some ''video'', vastXml := sb_adm serverBid,
             vastContent := sb_adm serverBid,
             vastUrl := (case sb_ext serverBid of None \<Rightarrow> None | Some e \<Rightarrow> ext_cache e)\<rparr>
      else if isNativeAd serverBid
      then (case try_native JSON_parse_native serverBid (adUnitCode bidRequest) of
              Inr parsed \<Rightarrow> b\<lparr>mediaType := Some ''native'', native := Some parsed,
                                width := Some 1, height := Some 1\<rparr>
            | Inl err \<Rightarrow> b\<lparr>mediaType := Some ''native'', cpm := Some 0\<rparr>)
      else b\<lparr>mediaType := Some ''banner'', ad := sb_adm serverBid\<rparr>)"

text \<open>\<^verbatim>\<open>bid.cpm > 0\<close>; a missing price compares false.\<close>

definition cpm_positive :: "rat option \<Rightarrow> bool" where
  "cpm_positive c = (case c of None \<Rightarrow> False | Some p \<Rightarrow> p > 0)"

text \<open>The body of \<^verbatim>\<open>seatbid.bid.forEach\<close>: one bid of the response.\<close>

definition interpret_bid ::
  "(string \<Rightarrow> js_error + native_payload option) \<Rightarrow> bidder_request \<Rightarrow> server_response \<Rightarrow> string option \<Rightarrow>
     parse_state \<Rightarrow> server_bid \<Rightarrow> parse_state" where
  "interpret_bid JSON_parse_native breq response seatName st serverBid =
     (let site_before = ps_site st;
          found = find_bidRequest (bids breq) (sb_impid serverBid);
          site = update_site site_before serverBid;
          st1 = st\<lparr>ps_site := site\<rparr>
      in case found of
           None \<Rightarrow> st1
         | Some bidRequest \<Rightarrow>
            (case site_id site of
               None \<Rightarrow> st1
             | Some sid \<Rightarrow>
                if sid \<noteq> [] \<and> \<not> strIncludes sid ''bidid''
                then (let st2 = st1\<lparr>ps_oneCodeDetection :=
                                        (ps_oneCodeDetection st1)(bidId bidRequest \<mapsto> (sid, site_slot site))\<rparr>;
                          b = classify_bid JSON_parse_native bidRequest serverBid
                                (base_bid breq response seatName site_before bidRequest serverBid)
                      in if cpm_positive (cpm b) then st2\<lparr>ps_bids := ps_bids st2 @ [b]\<rparr> else st2)
                else st1))"

text \<open>The two nested loops over \<^verbatim>\<open>response.seatbid\<close>.\<close>

definition interpret_seatbid ::
  "(string \<Rightarrow> js_error + native_payload option) \<Rightarrow> bidder_request \<Rightarrow> server_response \<Rightarrow>
     parse_state \<Rightarrow> seat_bid \<Rightarrow> parse_state" where
  "interpret_seatbid JSON_parse_native breq response st sb =
     foldl (interpret_bid JSON_parse_native breq response (seat sb)) st (bid sb)"

definition empty_site :: site_data where
  "empty_site = \<lparr>site_id = None, site_slot = None, site_publisherId = None, site_adLabel = None,
                  site_sn = None\<rparr>"

text \<open>The site that the loops start from: the site of the request, with the site name of
  the response or \<^verbatim>\<open>mc_adapter\<close>.\<close>

definition initial_site :: "server_response \<Rightarrow> server_request \<Rightarrow> site_data" where
  "initial_site response request =
     (case data_site request of None \<Rightarrow> empty_site | Some s \<Rightarrow> s)
       \<lparr>site_sn := Some (if truthy (sn response) then template_str (sn response) else ''mc_adapter'')\<rparr>"

text \<open>The state before the first bid: no bid collected yet.\<close>

definition initial_state ::
  "(string \<rightharpoonup> (string \<times> string option)) \<Rightarrow> server_response \<Rightarrow> server_request \<Rightarrow> parse_state" where
  "initial_state oneCodeDetection response request =
     \<lparr>ps_site = initial_site response request, ps_oneCodeDetection = oneCodeDetection, ps_bids = []\<rparr>"

text \<open>\<^verbatim>\<open>interpretResponse\<close> after its first statement: the two loops, from the store
  \<^verbatim>\<open>oneCodeDetection\<close> they find to the state they leave; \<open>ps_bids\<close> of the result is the
  returned array. The copy of the site name into \<^verbatim>\<open>pageView\<close> is left out.\<close>

definition interpretResponse_body ::
  "(string \<Rightarrow> js_error + native_payload option) \<Rightarrow> (string \<rightharpoonup> (string \<times> string option)) \<Rightarrow>
     server_response \<Rightarrow> server_request \<Rightarrow> parse_state" where
  "interpretResponse_body JSON_parse_native oneCodeDetection response request =
     (let st0 = initial_state oneCodeDetection response request
      in case seatbid response of
           None \<Rightarrow> st0
         | Some seatbids \<Rightarrow>
             foldl (interpret_seatbid JSON_parse_native (bidderRequest request) response) st0 seatbids)"

text \<open>\<^verbatim>\<open>interpretResponse\<close>. Its first statement is
  \<^verbatim>\<open>converter.fromORTB({ response: serverResponse.body, request: request.data })\<close>, a call
  into the converter library, which is not among these sources: \<open>fromORTB\<close> stands for that
  function, and is given the response and \<^verbatim>\<open>request.data\<close>. Its value is only logged;
  when it raises, nothing catches the exception and \<^verbatim>\<open>interpretResponse\<close> raises it.\<close>

definition interpretResponse ::
  "(server_response \<Rightarrow> site_data option \<Rightarrow> js_error + unit) \<Rightarrow>
   (string \<Rightarrow> js_error + native_payload option) \<Rightarrow> (string \<rightharpoonup> (string \<times> string option)) \<Rightarrow>
     server_response \<Rightarrow> server_request \<Rightarrow> js_error + parse_state" where
  "interpretResponse fromORTB JSON_parse_native oneCodeDetection response request =
     (case fromORTB response (data_site request) of
        Inl err \<Rightarrow> Inl err
      | Inr bidsFromConverter \<Rightarrow>
          Inr (interpretResponse_body JSON_parse_native oneCodeDetection response request))"

subsection \<open>Example inputs\<close>

text \<open>One slot \<^verbatim>\<open>div-1\<close> of size 300x250 with the parameters \<^verbatim>\<open>{id: "5", siteId: "7"}\<close>, and
  the same slot without parameters.\<close>

definition example_request :: bid_request where
  "example_request =
     \<lparr>bidId = ''b1'', adUnitCode = ''div-1'', sizes = [(300, 250)],
      params = Some (ParamsObject \<lparr>p_id = Some ''5'', p_siteId = Some ''7''\<rparr>), getFloor = None\<rparr>"

definition onecode_request :: bid_request where
  "onecode_request =
     \<lparr>bidId = ''b2'', adUnitCode = ''div-2'', sizes = [(300, 250)], params = None, getFloor = None\<rparr>"

definition no_ext :: bid_ext where
  "no_ext = \<lparr>ext_siteid = None, ext_slotid = None, ext_pubid = None, ext_adlabel = None,
             ext_cache = None, ext_vurls = None, ext_pricepl = None\<rparr>"

text \<open>A banner bid for an impression id, at a price.\<close>

definition banner_bid :: "string \<Rightarrow> rat \<Rightarrow> server_bid" where
  "banner_bid impid price =
     \<lparr>sb_adomain = None, sb_crid = Some ''c1'', sb_impid = Some impid, sb_exp = None, sb_ext = None,
      sb_price = Some price, sb_w = Some 300, sb_h = Some 250, sb_adm = Some ''<banner html>'',
      sb_admNative = None\<rparr>"

definition response_of :: "server_bid list \<Rightarrow> server_response" where
  "response_of bs = \<lparr>sn = None, cur = Some ''PLN'', seatbid = Some [\<lparr>seat = Some ''dsp1'', bid = bs\<rparr>]\<rparr>"

definition request_of :: "bid_request list \<Rightarrow> string option \<Rightarrow> server_request" where
  "request_of bs siteId =
     \<lparr>bidderRequest = \<lparr>auctionId = Some ''a1'', bids = bs\<rparr>,
      data_site = Some (empty_site\<lparr>site_id := siteId\<rparr>)\<rparr>"

text \<open>The converter library as it answers this adapter. Its \<^verbatim>\<open>fromORTB\<close> looks the request
  up in the table of the payload objects that its \<^verbatim>\<open>toORTB\<close> returned, and raises an
  \<^verbatim>\<open>Error\<close> for a request that is none of them. What it is handed here is
  \<^verbatim>\<open>request.data\<close>, a text or nothing, never one of those objects: it raises whatever the
  response and the text are. The later revision of the adapter hands it
  \<^verbatim>\<open>request.payload\<close>, the object itself.\<close>

definition converter_fromORTB :: "server_response \<Rightarrow> site_data option \<Rightarrow> js_error + unit" where
  "converter_fromORTB response request_data = Inl PlainError"

text \<open>A converter that accepts whatever it is handed.\<close>

definition fromORTB_accepts :: "server_response \<Rightarrow> site_data option \<Rightarrow> js_error + unit" where
  "fromORTB_accepts response request_data = Inr ()"

text \<open>A reader of native markup that accepts nothing.\<close>

definition no_json :: "string \<Rightarrow> js_error + native_payload option" where
  "no_json adm = Inl SyntaxError"

definition empty_result :: native_result where
  "empty_result =
     \<lparr>clickUrl = None, clickTrackers = [], impressionTrackers = None, javascriptTrackers = None,
      nr_title = None, nr_image = None, nr_icon = None, nr_sponsoredBy = None, nr_body = None,
      nr_cta = None\<rparr>"

text \<open>An asset with an image and a data value, neither of them typed.\<close>

definition untyped_asset :: "int \<Rightarrow> native_asset" where
  "untyped_asset i =
     \<lparr>asset_id = Some i,
      asset_img = Some \<lparr>img_w = Some 100, img_h = Some 50, img_url = Some ''https://img'', img_type = None\<rparr>,
      asset_title = None,
      asset_data = Some \<lparr>data_type = None, data_value = Some ''text''\<rparr>\<rparr>"

text \<open>A floor function with the banner floors 0.5 for 300x250 and 0.8 for any other size,
  the native floor 0.3, and no floor for video; a slot of two sizes that carries it.\<close>

definition example_getFloor :: "floor_query \<Rightarrow> floor_info" where
  "example_getFloor q =
     (if fq_mediaType q = ''banner''
      then (if fq_size q = Some (300, 250)
            then \<lparr>fi_floor = Some (1 / 2), fi_currency = Some ''USD''\<rparr>
            else \<lparr>fi_floor = Some (4 / 5), fi_currency = Some ''USD''\<rparr>)
      else if fq_mediaType q = ''native''
      then \<lparr>fi_floor = Some (3 / 10), fi_currency = Some ''USD''\<rparr>
      else \<lparr>fi_floor = None, fi_currency = None\<rparr>)"

definition floor_slot :: bid_request where
  "floor_slot =
     \<lparr>bidId = ''b3'', adUnitCode = ''div-3'', sizes = [(300, 250), (728, 90)], params = None,
      getFloor = Some example_getFloor\<rparr>"

subsection \<open>Notions for the statements about the response\<close>

text \<open>The bids of a response in the order the two loops visit them, each with the seat of
  its group, and the loop body run over such a list.\<close>

definition wire_bids :: "server_response \<Rightarrow> (string option \<times> server_bid) list" where
  "wire_bids response =
     (case seatbid response of
        None \<Rightarrow> []
      | Some seatbids \<Rightarrow> concat (map (\<lambda>sb. map (\<lambda>b. (seat sb, b)) (bid sb)) seatbids))"

definition interpret_bids ::
  "(string \<Rightarrow> js_error + native_payload option) \<Rightarrow> bidder_request \<Rightarrow> server_response \<Rightarrow>
     parse_state \<Rightarrow> (string option \<times> server_bid) list \<Rightarrow> parse_state" where
  "interpret_bids JSON_parse_native breq response st xs =
     foldl (\<lambda>st x. interpret_bid JSON_parse_native breq response (fst x) st (snd x)) st xs"

definition ext_siteid_of :: "server_bid \<Rightarrow> string option" where
  "ext_siteid_of u = (case sb_ext u of None \<Rightarrow> None | Some e \<Rightarrow> ext_siteid e)"

definition ext_slotid_of :: "server_bid \<Rightarrow> string option" where
  "ext_slotid_of u = (case sb_ext u of None \<Rightarrow> None | Some e \<Rightarrow> ext_slotid e)"

text \<open>A synthetic site id: one that starts with \<^verbatim>\<open>bidid-\<close>.\<close>

definition is_placeholder :: "string \<Rightarrow> bool" where
  "is_placeholder sid = (take 6 sid = ''bidid-'')"

text \<open>The site id of the request, and the site id of a bid as the specification words it:
  the \<^verbatim>\<open>ext.siteid\<close> of the bid, else the site id of the request.\<close>

definition request_site_id :: "server_request \<Rightarrow> string option" where
  "request_site_id request = (case data_site request of None \<Rightarrow> None | Some s \<Rightarrow> site_id s)"

definition resolved_site_id_spec :: "server_request \<Rightarrow> server_bid \<Rightarrow> string option" where
  "resolved_site_id_spec request u =
     (case ext_siteid_of u of
        Some v \<Rightarrow> Some v
      | None \<Rightarrow> request_site_id request)"

text \<open>The site id after a run of bids: the \<^verbatim>\<open>ext.siteid\<close> of the last bid that has one,
  else the site id the run started from.\<close>

definition carried_site_id :: "string option \<Rightarrow> server_bid list \<Rightarrow> string option" where
  "carried_site_id start us =
     foldl (\<lambda>acc u. case ext_siteid_of u of None \<Rightarrow> acc | Some v \<Rightarrow> Some v) start us"

text \<open>A bid whose markup announces a native ad.\<close>

definition native_bid :: "string \<Rightarrow> rat \<Rightarrow> server_bid" where
  "native_bid impid price =
     \<lparr>sb_adomain = None, sb_crid = Some ''c2'', sb_impid = Some impid, sb_exp = None, sb_ext = None,
      sb_price = Some price, sb_w = None, sb_h = None,
      sb_adm = Some (''{'' @ [CHR 0x22] @ ''native'' @ [CHR 0x22] @ '':1}''),
      sb_admNative = None\<rparr>"

text \<open>A banner bid that names its site.\<close>

definition sited_bid :: "string \<Rightarrow> rat \<Rightarrow> string \<Rightarrow> server_bid" where
  "sited_bid impid price siteid =
     (banner_bid impid price)\<lparr>sb_ext := Some (no_ext\<lparr>ext_siteid := Some siteid\<rparr>)\<rparr>"

subsection \<open>Notions for the statements about the size labels\<close>

text \<open>The labels given to a sequence of bid requests, from maps that are empty at first.\<close>

definition labels_of :: "string option \<Rightarrow> bid_request list \<Rightarrow> pbsize_value list" where
  "labels_of cfg bs = map pbsize (snd (build_imps cfg initial_labels bs))"

text \<open>The largest size of the first request of an ad unit in a sequence, and the number of
  ad units of a sequence whose first request has a given largest size.\<close>

definition first_size :: "bid_request list \<Rightarrow> string \<Rightarrow> string option" where
  "first_size bs code = map_option (\<lambda>b. impSize (sizes b)) (find (\<lambda>b. adUnitCode b = code) bs)"

definition units_with_size :: "bid_request list \<Rightarrow> string \<Rightarrow> nat" where
  "units_with_size bs sz =
     length (filter (\<lambda>code. first_size bs code = Some sz) (remdups (map adUnitCode bs)))"

text \<open>The counter of a size; a size never counted stands at 0.\<close>

definition size_counter :: "label_state \<Rightarrow> string \<Rightarrow> nat" where
  "size_counter st sz = (case adSizesCalled st sz of None \<Rightarrow> 0 | Some k \<Rightarrow> k)"

text \<open>A slot of an ad unit with three sizes, the largest of them in the middle.\<close>

definition sized_slot :: "string \<Rightarrow> bid_request" where
  "sized_slot code =
     \<lparr>bidId = ''r-'' @ code, adUnitCode = code, sizes = [(728, 90), (300, 250), (320, 50)],
      params = None, getFloor = None\<rparr>"

section \<open>Properties\<close>

subsection \<open>Native assets\<close>

lemma for_in_nativeAssetMap:
  "for_in_assetMap nativeAssetMap i =
     (if i = 0 then Some ''title'' else if i = 1 then Some ''cta'' else if i = 2 then Some ''icon''
      else if i = 3 then Some ''image'' else if i = 4 then Some ''body''
      else if i = 5 then Some ''sponsoredBy'' else None)"
  by (simp add: nativeAssetMap_def)

text \<open>
  Claim C8. An asset id above 10 is classified as an image, whatever the id-to-type map
  holds; an asset with such an id and an image URL becomes the image of the parsed result.
\<close>

theorem asset_id_above_10_is_image:
  "10 < i \<Longrightarrow>
     getNativeAssetType_with assetMap (Some i) = Some ''image'' \<and>
     getNativeAssetType (Some i) = Some ''image'' \<and>
     (asset_id a = Some i \<longrightarrow> asset_img a = Some im \<longrightarrow> truthy (img_url im) \<longrightarrow>
        nr_image (parse_asset r a) =
          Some \<lparr>image_url = img_url im, image_width = img_w im, image_height = img_h im\<rparr>)"
  by (auto simp: getNativeAssetType_with_def getNativeAssetType_def parse_asset_def Let_def)

theorem asset_id_above_10_is_image_witness:
  "(10::int) < 11 \<and>
   getNativeAssetType_with [(''title'', 11)] (Some 11) = Some ''image'' \<and>
   getNativeAssetType (Some 11) = Some ''image'' \<and>
   asset_id (untyped_asset 11) = Some 11 \<and>
   truthy (Some ''https://img'') \<and>
   nr_image (parse_asset empty_result (untyped_asset 11)) =
     Some \<lparr>image_url = Some ''https://img'', image_width = Some 100, image_height = Some 50\<rparr>"
  using asset_id_above_10_is_image [of 11 "[(''title'', 11)]" "untyped_asset 11"
      "\<lparr>img_w = Some 100, img_h = Some 50, img_url = Some ''https://img'', img_type = None\<rparr>"
      empty_result]
  by (simp add: untyped_asset_def truthy_def)

text \<open>
  Claim C10. An asset id from 6 to 10 has no type. Such an asset sets neither the image nor
  the icon unless its image carries the type 1 or 3, and sets none of sponsoredBy, body and
  cta unless its data carries the type 1, 2 or 12.
\<close>

theorem asset_id_6_to_10_has_no_type:
  "6 \<le> i \<Longrightarrow> i \<le> 10 \<Longrightarrow> asset_id a = Some i \<Longrightarrow>
     getNativeAssetType (Some i) = None \<and>
     ((\<forall>im. asset_img a = Some im \<longrightarrow> img_type im \<noteq> Some 1 \<and> img_type im \<noteq> Some 3) \<longrightarrow>
        nr_image (parse_asset r a) = nr_image r \<and> nr_icon (parse_asset r a) = nr_icon r) \<and>
     ((\<forall>d. asset_data a = Some d \<longrightarrow>
          data_type d \<noteq> Some 1 \<and> data_type d \<noteq> Some 2 \<and> data_type d \<noteq> Some 12) \<longrightarrow>
        nr_sponsoredBy (parse_asset r a) = nr_sponsoredBy r \<and>
        nr_body (parse_asset r a) = nr_body r \<and>
        nr_cta (parse_asset r a) = nr_cta r)"
proof -
  assume a: "6 \<le> i" "i \<le> 10" "asset_id a = Some i"
  have t: "getNativeAssetType (Some i) = None"
    using a by (simp add: getNativeAssetType_def getNativeAssetType_with_def for_in_nativeAssetMap)
  show ?thesis
    using a t by (auto simp: parse_asset_def Let_def split: option.splits)
qed

theorem asset_id_6_to_10_has_no_type_witness:
  "(6::int) \<le> 7 \<and> (7::int) \<le> 10 \<and> asset_id (untyped_asset 7) = Some 7 \<and>
   getNativeAssetType (Some 7) = None \<and>
   nr_image (parse_asset empty_result (untyped_asset 7)) = None \<and>
   nr_icon (parse_asset empty_result (untyped_asset 7)) = None \<and>
   nr_sponsoredBy (parse_asset empty_result (untyped_asset 7)) = None \<and>
   nr_body (parse_asset empty_result (untyped_asset 7)) = None \<and>
   nr_cta (parse_asset empty_result (untyped_asset 7)) = None"
  using asset_id_6_to_10_has_no_type [of 7 "untyped_asset 7" empty_result]
  by (simp add: untyped_asset_def empty_result_def)

subsection \<open>The unicornId submodule\<close>

text \<open>
  Claim C9. \<^verbatim>\<open>decode\<close> returns the object with the member \<^verbatim>\<open>unicornId\<close> exactly for a
  string, and nothing for a number, an object, null and undefined; \<^verbatim>\<open>getId\<close> returns
  what the storage holds under the token's key, as it is.
\<close>

theorem decode_exactly_strings:
  "(decode v = Some \<lparr>unicornId = s\<rparr> \<longleftrightarrow> v = JString s) \<and>
   ((\<forall>t. v \<noteq> JString t) \<longrightarrow> decode v = None) \<and>
   decode (JNumber n) = None \<and> decode (JObject fs) = None \<and> decode (JBoolean b) = None \<and>
   decode JNull = None \<and> decode JUndefined = None \<and>
   id_field (getId getDataFromLocalStorage) = getDataFromLocalStorage ''unicornToken''"
  by (cases v) (simp_all add: decode_def getId_def ID_TOKEN_def)

theorem decode_exactly_strings_witness:
  "decode (JString ''abc'') = Some \<lparr>unicornId = ''abc''\<rparr> \<and>
   (\<forall>t. JNumber 5 \<noteq> JString t) \<and> decode (JNumber 5) = None \<and>
   id_field (getId (\<lambda>k. if k = ''unicornToken'' then Some ''tok-1'' else None)) = Some ''tok-1''"
  using decode_exactly_strings [of "JString ''abc''" "''abc''" 0 "[]" True
          "\<lambda>k. if k = ''unicornToken'' then Some ''tok-1'' else None"]
        decode_exactly_strings [of "JNumber 5" "''abc''" 5 "[]" True "\<lambda>k. None"]
  by simp

subsection \<open>The impression id\<close>

lemma concat_replicate_single: "concat (replicate n [c]) = replicate n c"
  by (induction n) simp_all

lemma padStart_zero: "padStart s n ''0'' = replicate (n - length s) CHR ''0'' @ s"
  by (simp add: padStart_def concat_replicate_single)

lemma imp_id_cases:
  "(params b = Some (ParamsObject p) \<and> p_id p = Some i \<and> i \<noteq> [] \<and> truthy (p_siteId p) \<longrightarrow>
      imp_id b = replicate (3 - length i) CHR ''0'' @ i \<and> 3 \<le> length (imp_id b)) \<and>
   (params b = Some (ParamsObject p) \<and> \<not> (truthy (p_id p) \<and> truthy (p_siteId p)) \<longrightarrow>
      imp_id b = ''bidid-'' @ bidId b) \<and>
   (params b = None \<longrightarrow> imp_id b = ''bidid-'' @ bidId b) \<and>
   (params b = Some (ParamsArray ps) \<longrightarrow> imp_id b = ''bidid-'' @ bidId b)"
  by (auto simp: imp_id_def padStart_zero truthy_def no_params_def split: option.splits)

lemma converter_imp_ident: "imp_ident (snd (converter_imp cfg st b)) = imp_id b"
  by (simp add: converter_imp_def Let_def split: prod.splits)

text \<open>
  Claim C2. The impression that \<^verbatim>\<open>converter.imp\<close> builds, whatever the currency and the
  maps of labels: with an id and a site id, both not empty, its id is the id of the
  parameters with zeros in front up to the width 3; without one of them, without
  parameters, or with an array of parameters, it is \<^verbatim>\<open>bidid-\<close> followed by the bid id.
\<close>

theorem imp_id_padded_or_bidid:
  "(params b = Some (ParamsObject p) \<and> p_id p = Some i \<and> i \<noteq> [] \<and> truthy (p_siteId p) \<longrightarrow>
      imp_ident (snd (converter_imp cfg st b)) = replicate (3 - length i) CHR ''0'' @ i \<and>
      3 \<le> length (imp_ident (snd (converter_imp cfg st b)))) \<and>
   (params b = Some (ParamsObject p) \<and> \<not> (truthy (p_id p) \<and> truthy (p_siteId p)) \<longrightarrow>
      imp_ident (snd (converter_imp cfg st b)) = ''bidid-'' @ bidId b) \<and>
   (params b = None \<longrightarrow> imp_ident (snd (converter_imp cfg st b)) = ''bidid-'' @ bidId b) \<and>
   (params b = Some (ParamsArray ps) \<longrightarrow>
      imp_ident (snd (converter_imp cfg st b)) = ''bidid-'' @ bidId b)"
  using imp_id_cases [of b p i ps] by (simp only: converter_imp_ident)

theorem imp_id_padded_or_bidid_witness:
  "params example_request = Some (ParamsObject \<lparr>p_id = Some ''5'', p_siteId = Some ''7''\<rparr>) \<and>
   truthy (Some ''7'') \<and>
   imp_ident (snd (converter_imp None initial_labels example_request)) = ''005'' \<and>
   \<not> (truthy (p_id \<lparr>p_id = Some ''5'', p_siteId = None\<rparr>) \<and> truthy (p_siteId \<lparr>p_id = Some ''5'', p_siteId = None\<rparr>)) \<and>
   imp_ident (snd (converter_imp None initial_labels
      (example_request\<lparr>params := Some (ParamsObject \<lparr>p_id = Some ''5'', p_siteId = None\<rparr>)\<rparr>))) = ''bidid-b1'' \<and>
   params onecode_request = None \<and>
   imp_ident (snd (converter_imp None initial_labels onecode_request)) = ''bidid-b2'' \<and>
   imp_ident (snd (converter_imp None initial_labels
      (example_request\<lparr>params := Some (ParamsArray [\<lparr>p_id = Some ''5'', p_siteId = Some ''7''\<rparr>])\<rparr>))) = ''bidid-b1''"
  using imp_id_padded_or_bidid [where b = example_request and p = "\<lparr>p_id = Some ''5'', p_siteId = Some ''7''\<rparr>"
          and i = "''5''" and cfg = None and st = initial_labels and ps = "[]"]
        imp_id_padded_or_bidid [where b = "example_request\<lparr>params := Some (ParamsObject \<lparr>p_id = Some ''5'', p_siteId = None\<rparr>)\<rparr>"
          and p = "\<lparr>p_id = Some ''5'', p_siteId = None\<rparr>" and i = "''5''" and cfg = None
          and st = initial_labels and ps = "[]"]
        imp_id_padded_or_bidid [where b = onecode_request and p = "\<lparr>p_id = None, p_siteId = None\<rparr>"
          and i = "''5''" and cfg = None and st = initial_labels and ps = "[]"]
        imp_id_padded_or_bidid [where b = "example_request\<lparr>params := Some (ParamsArray [\<lparr>p_id = Some ''5'', p_siteId = Some ''7''\<rparr>])\<rparr>"
          and p = "\<lparr>p_id = None, p_siteId = None\<rparr>" and i = "''5''" and cfg = None
          and st = initial_labels and ps = "[\<lparr>p_id = Some ''5'', p_siteId = Some ''7''\<rparr>]"]
  by (simp add: example_request_def onecode_request_def truthy_def eval_nat_numeral)

lemma ids_agree_iff_long:
  "params b = Some (ParamsObject p) \<Longrightarrow> p_id p = Some i \<Longrightarrow> i \<noteq> [] \<Longrightarrow> truthy (p_siteId p) \<Longrightarrow>
     (imp_id b = currentBidId b) = (3 \<le> length i)"
  by (auto simp: imp_id_def currentBidId_def unpackParams_def padStart_zero)

lemma ids_agree_fallback:
  "params b = None \<or> (params b = Some (ParamsObject p) \<and> \<not> (truthy (p_id p) \<and> truthy (p_siteId p))) \<Longrightarrow>
     imp_id b = currentBidId b"
  by (auto simp: imp_id_def currentBidId_def unpackParams_def truthy_def no_params_def
           split: option.splits)

lemma interpretResponse_raises:
  "fromORTB response (data_site request) = Inl err \<Longrightarrow>
     interpretResponse fromORTB J store response request = Inl err"
  by (simp add: interpretResponse_def)

lemma interpretResponse_returns:
  "fromORTB response (data_site request) = Inr u \<Longrightarrow>
     interpretResponse fromORTB J store response request =
       Inr (interpretResponse_body J store response request)"
  by (simp add: interpretResponse_def)

text \<open>
  Claim C1, at the slot with the parameters \<^verbatim>\<open>{id: "5", siteId: "7"}\<close>: the builder gives
  the impression the id 005, the filter of \<^verbatim>\<open>interpretResponse\<close> derives 5 for the same
  request, so a bid that answers the impression 005 finds no request: for the response of
  one banner bid at the price 1.5 the loops yield no bid. \<^verbatim>\<open>interpretResponse\<close> raises the
  error of the converter; with a converter that accepts its request it returns what the
  loops yield, no bid.
\<close>

theorem rederived_id_differs_for_short_id:
  "imp_id example_request = ''005'' \<and>
   imp_ident (snd (converter_imp None initial_labels example_request)) = ''005'' \<and>
   currentBidId example_request = ''5'' \<and>
   find_bidRequest [example_request] (Some (imp_id example_request)) = None \<and>
   ps_bids (interpretResponse_body no_json Map.empty (response_of [banner_bid ''005'' (3 / 2)])
              (request_of [example_request] (Some ''7''))) = [] \<and>
   interpretResponse converter_fromORTB no_json Map.empty (response_of [banner_bid ''005'' (3 / 2)])
     (request_of [example_request] (Some ''7'')) = Inl PlainError \<and>
   interpretResponse fromORTB_accepts no_json Map.empty (response_of [banner_bid ''005'' (3 / 2)])
     (request_of [example_request] (Some ''7'')) =
       Inr (interpretResponse_body no_json Map.empty (response_of [banner_bid ''005'' (3 / 2)])
              (request_of [example_request] (Some ''7'')))"
proof -
  have body: "ps_bids (interpretResponse_body no_json Map.empty (response_of [banner_bid ''005'' (3 / 2)])
              (request_of [example_request] (Some ''7''))) = []"
    by (simp add: currentBidId_def unpackParams_def example_request_def truthy_def
        find_bidRequest_def interpretResponse_body_def initial_state_def
        interpret_seatbid_def interpret_bid_def response_of_def request_of_def banner_bid_def
        Let_def)
  have ids: "imp_id example_request = ''005''" "currentBidId example_request = ''5''"
    by (simp_all add: imp_id_def currentBidId_def unpackParams_def example_request_def truthy_def
        padStart_zero eval_nat_numeral)
  have unmatched: "find_bidRequest [example_request] (Some (imp_id example_request)) = None"
    by (simp add: ids find_bidRequest_def)
  show ?thesis
    using body ids unmatched
    by (simp add: converter_imp_ident interpretResponse_def converter_fromORTB_def
          fromORTB_accepts_def)
qed

subsection \<open>Floors\<close>

lemma foldl_keep_larger:
  "foldl (\<lambda>prev next. let currentFloor = f next in if prev > currentFloor then prev else currentFloor) a xs =
     Max (insert (a::rat) (f ` set xs))"
proof (induction xs arbitrary: a)
  case Nil
  then show ?case by simp
next
  case (Cons x xs)
  have "Max (insert (max a (f x)) (f ` set xs)) = Max (insert a (insert (f x) (f ` set xs)))"
  proof (cases "set xs = {}")
    case True
    then show ?thesis by simp
  next
    case False
    then show ?thesis by (simp add: max.assoc)
  qed
  moreover have "(if f x < a then a else f x) = max a (f x)"
    by (simp add: max_def)
  ultimately show ?case
    using Cons.IH [of "max a (f x)"] by (simp add: Let_def)
qed

text \<open>
  Claim C4. With a floor function, the banner floor is the greatest of 0 and the banner
  floors of the sizes, and the floor of the slot is the greatest of the banner, native and
  video floors (a floor that is not given counts 0); without one, the floor is 0. The
  currency is the configured ad-server currency, or PLN.
\<close>

theorem getHighestFloor_is_max:
  "(getFloor slot = Some gf \<longrightarrow>
      bannerFloor_of gf c (sizes slot) =
        Max (insert 0 ((\<lambda>s. floor_or_0 (gf \<lparr>fq_mediaType = ''banner'', fq_size = Some s, fq_currency = c\<rparr>))
                         ` set (sizes slot))) \<and>
      hf_floor (getHighestFloor cfg slot) =
        Max {bannerFloor_of gf (getCurrency cfg) (sizes slot),
             floor_or_0 (gf \<lparr>fq_mediaType = ''native'', fq_size = None, fq_currency = getCurrency cfg\<rparr>),
             floor_or_0 (gf \<lparr>fq_mediaType = ''video'', fq_size = None, fq_currency = getCurrency cfg\<rparr>)}) \<and>
   (getFloor slot = None \<longrightarrow> hf_floor (getHighestFloor cfg slot) = 0) \<and>
   hf_currency (getHighestFloor cfg slot) = getCurrency cfg \<and>
   getCurrency None = ''PLN'' \<and> getCurrency (Some []) = ''PLN'' \<and>
   getCurrency (Some (x # xs)) = x # xs"
proof -
  have banner: "bannerFloor_of gf c szs =
      Max (insert 0 ((\<lambda>s. floor_or_0 (gf \<lparr>fq_mediaType = ''banner'', fq_size = Some s, fq_currency = c\<rparr>)) ` set szs))"
    for szs
    unfolding bannerFloor_of_def by (cases "szs = []") (simp_all add: foldl_keep_larger)
  have cur: "hf_currency (getHighestFloor cfg slot) = getCurrency cfg"
    by (simp add: getHighestFloor_def Let_def split: option.splits)
  have some: "getFloor slot = Some gf \<Longrightarrow>
      hf_floor (getHighestFloor cfg slot) =
        Max {bannerFloor_of gf (getCurrency cfg) (sizes slot),
             floor_or_0 (gf \<lparr>fq_mediaType = ''native'', fq_size = None, fq_currency = getCurrency cfg\<rparr>),
             floor_or_0 (gf \<lparr>fq_mediaType = ''video'', fq_size = None, fq_currency = getCurrency cfg\<rparr>)}"
    by (simp add: getHighestFloor_def Let_def)
  have none: "getFloor slot = None \<Longrightarrow> hf_floor (getHighestFloor cfg slot) = 0"
    by (simp add: getHighestFloor_def Let_def)
  show ?thesis
    using banner [of "sizes slot"] cur some none
    by (simp add: getCurrency_def DEFAULT_CURRENCY_def)
qed

theorem getHighestFloor_is_max_witness:
  "getFloor floor_slot = Some example_getFloor \<and>
   bannerFloor_of example_getFloor ''USD'' (sizes floor_slot) = 4 / 5 \<and>
   hf_floor (getHighestFloor (Some ''USD'') floor_slot) = 4 / 5 \<and>
   hf_currency (getHighestFloor (Some ''USD'') floor_slot) = ''USD'' \<and>
   getFloor onecode_request = None \<and>
   hf_floor (getHighestFloor None onecode_request) = 0 \<and>
   hf_currency (getHighestFloor None onecode_request) = ''PLN''"
  using getHighestFloor_is_max [of floor_slot example_getFloor "''USD''" "Some ''USD''" "CHR ''U''" "''SD''"]
        getHighestFloor_is_max [of onecode_request example_getFloor "''USD''" None "CHR ''U''" "''SD''"]
  by (simp add: floor_slot_def onecode_request_def example_getFloor_def floor_or_0_def)

subsection \<open>The response\<close>

lemma initial_state_simps [simp]:
  "ps_bids (initial_state store response request) = []"
  "ps_oneCodeDetection (initial_state store response request) = store"
  "ps_site (initial_state store response request) = initial_site response request"
  by (simp_all add: initial_state_def)

lemma interpret_bids_Nil [simp]: "interpret_bids J breq response st [] = st"
  by (simp add: interpret_bids_def)

lemma interpret_bids_Cons [simp]:
  "interpret_bids J breq response st (x # xs) =
     interpret_bids J breq response (interpret_bid J breq response (fst x) st (snd x)) xs"
  by (simp add: interpret_bids_def)

lemma interpret_bids_append:
  "interpret_bids J breq response st (xs @ ys) =
     interpret_bids J breq response (interpret_bids J breq response st xs) ys"
  by (simp add: interpret_bids_def)

lemma interpret_seatbid_as_bids:
  "interpret_seatbid J breq response st sb =
     interpret_bids J breq response st (map (\<lambda>b. (seat sb, b)) (bid sb))"
  by (simp add: interpret_seatbid_def interpret_bids_def foldl_map)

lemma foldl_seatbids_as_bids:
  "foldl (interpret_seatbid J breq response) st sbs =
     interpret_bids J breq response st (concat (map (\<lambda>sb. map (\<lambda>b. (seat sb, b)) (bid sb)) sbs))"
  by (induction sbs arbitrary: st) (simp_all add: interpret_bids_append interpret_seatbid_as_bids)

lemma interpretResponse_as_bids:
  "interpretResponse_body J store response request =
     interpret_bids J (bidderRequest request) response (initial_state store response request)
       (wire_bids response)"
  by (simp add: interpretResponse_body_def wire_bids_def foldl_seatbids_as_bids Let_def
           split: option.splits)

lemma classify_bid_cpm:
  "cpm (classify_bid J r u b) = cpm b \<or> cpm (classify_bid J r u b) = Some 0"
  by (simp add: classify_bid_def split: sum.splits)

lemma classify_bid_requestId: "requestId (classify_bid J r u b) = requestId b"
  by (simp add: classify_bid_def split: sum.splits)

lemma cpm_positive_zero [simp]: "\<not> cpm_positive (Some 0)"
  by (simp add: cpm_positive_def)

text \<open>What one bid does to the state: the site data is updated; a bid is appended and the
  store written only for a matched request, a usable site id and a positive price.\<close>

lemma interpret_bid_site:
  "ps_site (interpret_bid J breq response s st u) = update_site (ps_site st) u"
  by (simp add: interpret_bid_def Let_def split: option.splits)

lemma interpret_bid_unmatched:
  "find_bidRequest (bids breq) (sb_impid u) = None \<Longrightarrow>
     interpret_bid J breq response s st u = st\<lparr>ps_site := update_site (ps_site st) u\<rparr>"
  by (simp add: interpret_bid_def Let_def)

lemma interpret_bid_bids:
  "ps_bids (interpret_bid J breq response s st u) = ps_bids st \<or>
   (\<exists>r sid b. find_bidRequest (bids breq) (sb_impid u) = Some r \<and>
      site_id (update_site (ps_site st) u) = Some sid \<and> sid \<noteq> [] \<and> \<not> strIncludes sid ''bidid'' \<and>
      requestId b = bidId r \<and> cpm b = sb_price u \<and> cpm_positive (cpm b) \<and>
      ps_bids (interpret_bid J breq response s st u) = ps_bids st @ [b])"
proof (cases "find_bidRequest (bids breq) (sb_impid u)")
  case None
  then show ?thesis by (simp add: interpret_bid_unmatched)
next
  case (Some r)
  show ?thesis
  proof (cases "site_id (update_site (ps_site st) u)")
    case None
    with Some show ?thesis by (simp add: interpret_bid_def Let_def)
  next
    case (Some sid)
    let ?b = "classify_bid J r u (base_bid breq response s (ps_site st) r u)"
    show ?thesis
    proof (cases "sid \<noteq> [] \<and> \<not> strIncludes sid ''bidid'' \<and> cpm_positive (cpm ?b)")
      case False
      with Some \<open>find_bidRequest (bids breq) (sb_impid u) = Some r\<close> show ?thesis
        by (auto simp: interpret_bid_def Let_def)
    next
      case True
      have "cpm ?b = sb_price u"
        using classify_bid_cpm [of J r u "base_bid breq response s (ps_site st) r u"] True
        by (auto simp: base_bid_def Let_def)
      moreover have "requestId ?b = bidId r"
        by (simp add: classify_bid_requestId base_bid_def Let_def)
      moreover have "ps_bids (interpret_bid J breq response s st u) = ps_bids st @ [?b]"
        using True Some \<open>find_bidRequest (bids breq) (sb_impid u) = Some r\<close>
        by (simp add: interpret_bid_def Let_def)
      ultimately show ?thesis
        using True Some \<open>find_bidRequest (bids breq) (sb_impid u) = Some r\<close> by blast
    qed
  qed
qed

lemma interpret_bid_store:
  "ps_oneCodeDetection (interpret_bid J breq response s st u) = ps_oneCodeDetection st \<or>
   (\<exists>r sid. find_bidRequest (bids breq) (sb_impid u) = Some r \<and>
      site_id (update_site (ps_site st) u) = Some sid \<and> sid \<noteq> [] \<and> \<not> strIncludes sid ''bidid'' \<and>
      ps_oneCodeDetection (interpret_bid J breq response s st u) =
        (ps_oneCodeDetection st)(bidId r \<mapsto> (sid, site_slot (update_site (ps_site st) u))))"
  by (auto simp: interpret_bid_def Let_def split: option.splits)

lemma interpret_bid_not_positive:
  "\<not> cpm_positive (sb_price u) \<Longrightarrow> ps_bids (interpret_bid J breq response s st u) = ps_bids st"
  using interpret_bid_bids [of J breq response s st u] by auto

lemma interpret_bids_extend:
  "\<exists>rest. ps_bids (interpret_bids J breq response st xs) = ps_bids st @ rest \<and>
     (\<forall>b \<in> set rest. cpm_positive (cpm b) \<and> (\<exists>x \<in> set xs. cpm b = sb_price (snd x)))"
proof (induction xs arbitrary: st)
  case Nil
  then show ?case by simp
next
  case (Cons x xs)
  let ?st1 = "interpret_bid J breq response (fst x) st (snd x)"
  obtain rest where rest: "ps_bids (interpret_bids J breq response ?st1 xs) = ps_bids ?st1 @ rest"
      "\<forall>b \<in> set rest. cpm_positive (cpm b) \<and> (\<exists>x \<in> set xs. cpm b = sb_price (snd x))"
    using Cons.IH [of ?st1] by blast
  from interpret_bid_bids [of J breq response "fst x" st "snd x"]
  consider "ps_bids ?st1 = ps_bids st"
    | b where "cpm b = sb_price (snd x)" "cpm_positive (cpm b)" "ps_bids ?st1 = ps_bids st @ [b]"
    by blast
  then show ?case
  proof cases
    case 1
    with rest show ?thesis by auto
  next
    case 2
    with rest have "ps_bids (interpret_bids J breq response st (x # xs)) = ps_bids st @ (b # rest)"
      by simp
    moreover have "\<forall>c \<in> set (b # rest). cpm_positive (cpm c) \<and> (\<exists>y \<in> set (x # xs). cpm c = sb_price (snd y))"
      using 2 rest(2) by auto
    ultimately show ?thesis by blast
  qed
qed

lemma failed_native_not_emitted:
  assumes "find_bidRequest (bids breq) (sb_impid u) = Some r" "\<not> isVideoAd u" "isNativeAd u"
    "try_native J u (adUnitCode r) = Inl e"
  shows "cpm (classify_bid J r u b0) = Some 0"
    and "ps_bids (interpret_bid J breq response s st u) = ps_bids st"
proof -
  show c: "cpm (classify_bid J r u b0) = Some 0" for b0
    using assms by (simp add: classify_bid_def)
  show "ps_bids (interpret_bid J breq response s st u) = ps_bids st"
    using assms(1) c [of "base_bid breq response s (ps_site st) r u"]
    by (simp add: interpret_bid_def Let_def split: option.splits)
qed

text \<open>
  Claim C3. Every bid that \<^verbatim>\<open>interpretResponse\<close> returns, and every bid that its loops
  collect, has a price above 0, the price of one of the bids of the response. A bid of the
  price 0 adds nothing to the returned bids, wherever it stands in the response and
  whatever it matches; a matched native bid whose payload cannot be read gets the price 0
  and adds nothing either.
\<close>

theorem only_positive_price_emitted:
  "(\<forall>st. interpretResponse fromORTB J store response request = Inr st \<longrightarrow>
      (\<forall>b \<in> set (ps_bids st).
         cpm_positive (cpm b) \<and> (\<exists>x \<in> set (wire_bids response). cpm b = sb_price (snd x)))) \<and>
   (\<forall>b \<in> set (ps_bids (interpretResponse_body J store response request)).
      cpm_positive (cpm b) \<and> (\<exists>x \<in> set (wire_bids response). cpm b = sb_price (snd x))) \<and>
   (sb_price u = Some 0 \<longrightarrow> ps_bids (interpret_bid J breq response s st u) = ps_bids st) \<and>
   (find_bidRequest (bids breq) (sb_impid u) = Some r \<and> \<not> isVideoAd u \<and> isNativeAd u \<and>
      try_native J u (adUnitCode r) = Inl e \<longrightarrow>
        cpm (classify_bid J r u b0) = Some 0 \<and>
        ps_bids (interpret_bid J breq response s st u) = ps_bids st)"
proof -
  have body: "\<forall>b \<in> set (ps_bids (interpretResponse_body J store response request)).
          cpm_positive (cpm b) \<and> (\<exists>x \<in> set (wire_bids response). cpm b = sb_price (snd x))"
    using interpret_bids_extend [of J "bidderRequest request" response
            "initial_state store response request" "wire_bids response"]
    by (auto simp: interpretResponse_as_bids initial_state_def)
  have whole: "\<forall>b \<in> set (ps_bids st').
          cpm_positive (cpm b) \<and> (\<exists>x \<in> set (wire_bids response). cpm b = sb_price (snd x))"
    if "interpretResponse fromORTB J store response request = Inr st'" for st'
  proof -
    from that have "st' = interpretResponse_body J store response request"
      by (simp add: interpretResponse_def split: sum.splits)
    with body show ?thesis by simp
  qed
  have zero: "sb_price u = Some 0 \<longrightarrow> ps_bids (interpret_bid J breq response s st u) = ps_bids st"
    by (simp add: interpret_bid_not_positive)
  from whole body zero show ?thesis
    using failed_native_not_emitted [of breq u r J e] by blast
qed

theorem only_positive_price_emitted_witness:
  "interpretResponse fromORTB_accepts no_json Map.empty (response_of [banner_bid ''bidid-b2'' (3 / 2)])
       (request_of [onecode_request] (Some ''7'')) =
     Inr (interpretResponse_body no_json Map.empty (response_of [banner_bid ''bidid-b2'' (3 / 2)])
            (request_of [onecode_request] (Some ''7''))) \<and>
   map cpm (ps_bids (interpretResponse_body no_json Map.empty (response_of [banner_bid ''bidid-b2'' (3 / 2)])
                       (request_of [onecode_request] (Some ''7'')))) = [Some (3 / 2)] \<and>
   cpm_positive (Some (3 / 2)) \<and>
   sb_price (banner_bid ''bidid-b2'' 0) = Some 0 \<and>
   find_bidRequest [onecode_request] (sb_impid (banner_bid ''bidid-b2'' 0)) = Some onecode_request \<and>
   ps_bids (interpretResponse_body no_json Map.empty (response_of [banner_bid ''bidid-b2'' 0])
              (request_of [onecode_request] (Some ''7''))) = [] \<and>
   find_bidRequest [onecode_request] (sb_impid (native_bid ''bidid-b2'' 2)) = Some onecode_request \<and>
   \<not> isVideoAd (native_bid ''bidid-b2'' 2) \<and> isNativeAd (native_bid ''bidid-b2'' 2) \<and>
   try_native no_json (native_bid ''bidid-b2'' 2) ''div-2'' = Inl SyntaxError \<and>
   ps_bids (interpretResponse_body no_json Map.empty (response_of [native_bid ''bidid-b2'' 2])
              (request_of [onecode_request] (Some ''7''))) = []"
proof -
  let ?breq = "\<lparr>auctionId = Some ''a1'', bids = [onecode_request]\<rparr>"
  let ?req = "request_of [onecode_request] (Some ''7'')"
  have m: "find_bidRequest [onecode_request] (Some ''bidid-b2'') = Some onecode_request"
    by (simp add: find_bidRequest_def currentBidId_def unpackParams_def onecode_request_def
          no_params_def)
  have run: "interpretResponse_body no_json Map.empty (response_of [v]) ?req =
      interpret_bid no_json ?breq (response_of [v]) (Some ''dsp1'')
        (initial_state Map.empty (response_of [v]) ?req) v" for v
    by (simp add: interpretResponse_body_def interpret_seatbid_def response_of_def request_of_def Let_def)
  have one: "map cpm (ps_bids (interpretResponse_body no_json Map.empty
                (response_of [banner_bid ''bidid-b2'' (3 / 2)]) ?req)) = [Some (3 / 2)]"
    using m unfolding run
    by (simp add: interpret_bid_def initial_state_def initial_site_def request_of_def
          response_of_def banner_bid_def update_site_def empty_site_def classify_bid_def
          isVideoAd_def isNativeAd_def base_bid_def cpm_positive_def Let_def)
  have nat: "\<not> isVideoAd (native_bid ''bidid-b2'' 2)" "isNativeAd (native_bid ''bidid-b2'' 2)"
      "try_native no_json (native_bid ''bidid-b2'' 2) ''div-2'' = Inl SyntaxError"
    by (simp_all add: isVideoAd_def isNativeAd_def native_bid_def is_quote_def try_native_def
          no_json_def)
  have adu: "adUnitCode onecode_request = ''div-2''"
    by (simp add: onecode_request_def)
  note t0 = only_positive_price_emitted [where J = no_json and store = Map.empty
      and response = "response_of [banner_bid ''bidid-b2'' 0]" and request = ?req
      and u = "banner_bid ''bidid-b2'' 0" and breq = ?breq and s = "Some ''dsp1''"
      and st = "initial_state Map.empty (response_of [banner_bid ''bidid-b2'' 0]) ?req"
      and r = onecode_request and e = SyntaxError]
  note t1 = only_positive_price_emitted [where J = no_json and store = Map.empty
      and response = "response_of [native_bid ''bidid-b2'' 2]" and request = ?req
      and u = "native_bid ''bidid-b2'' 2" and breq = ?breq and s = "Some ''dsp1''"
      and st = "initial_state Map.empty (response_of [native_bid ''bidid-b2'' 2]) ?req"
      and r = onecode_request and e = SyntaxError]
  note t2 = only_positive_price_emitted [where J = no_json and store = Map.empty
      and response = "response_of [banner_bid ''bidid-b2'' (3 / 2)]" and request = ?req
      and fromORTB = fromORTB_accepts]
  have acc: "interpretResponse fromORTB_accepts no_json Map.empty
        (response_of [banner_bid ''bidid-b2'' (3 / 2)]) ?req =
      Inr (interpretResponse_body no_json Map.empty (response_of [banner_bid ''bidid-b2'' (3 / 2)]) ?req)"
    by (simp add: interpretResponse_def fromORTB_accepts_def)
  have zero: "ps_bids (interpretResponse_body no_json Map.empty (response_of [banner_bid ''bidid-b2'' 0]) ?req) = []"
    using t0 unfolding run by (simp add: banner_bid_def)
  have failed: "ps_bids (interpretResponse_body no_json Map.empty (response_of [native_bid ''bidid-b2'' 2]) ?req) = []"
    using t1 m nat adu unfolding run by (simp add: native_bid_def)
  obtain b where b: "ps_bids (interpretResponse_body no_json Map.empty
        (response_of [banner_bid ''bidid-b2'' (3 / 2)]) ?req) = [b]" "cpm b = Some (3 / 2)"
    using one by (auto simp: map_eq_Cons_conv)
  from t2 acc have "\<forall>x \<in> set (ps_bids (interpretResponse_body no_json Map.empty
        (response_of [banner_bid ''bidid-b2'' (3 / 2)]) ?req)). cpm_positive (cpm x)"
    by simp
  with b have pos: "cpm_positive (Some (3 / 2))"
    by simp
  show ?thesis
    using acc one zero failed m nat pos
    by (simp add: banner_bid_def native_bid_def)
qed

text \<open>The bids collected so far play no part in a step, and of the site data a step reads
  the id and the slot only.\<close>

lemma interpret_bid_bids_prefix:
  "ps_bids (interpret_bid J breq response s st u) =
     ps_bids st @ ps_bids (interpret_bid J breq response s (st\<lparr>ps_bids := []\<rparr>) u)"
  "(interpret_bid J breq response s st u)\<lparr>ps_bids := []\<rparr> =
     (interpret_bid J breq response s (st\<lparr>ps_bids := []\<rparr>) u)\<lparr>ps_bids := []\<rparr>"
  by (simp_all add: interpret_bid_def Let_def split: option.splits)

lemma interpret_bids_bids_prefix:
  "ps_bids (interpret_bids J breq response st xs) =
     ps_bids st @ ps_bids (interpret_bids J breq response (st\<lparr>ps_bids := []\<rparr>) xs)"
proof (induction xs arbitrary: st)
  case Nil
  then show ?case by simp
next
  case (Cons x xs)
  let ?f = "\<lambda>st. interpret_bid J breq response (fst x) st (snd x)"
  have "ps_bids (interpret_bids J breq response (?f st) xs) =
          ps_bids (?f st) @ ps_bids (interpret_bids J breq response ((?f st)\<lparr>ps_bids := []\<rparr>) xs)"
    by (rule Cons.IH)
  moreover have "ps_bids (interpret_bids J breq response (?f (st\<lparr>ps_bids := []\<rparr>)) xs) =
          ps_bids (?f (st\<lparr>ps_bids := []\<rparr>)) @
          ps_bids (interpret_bids J breq response ((?f (st\<lparr>ps_bids := []\<rparr>))\<lparr>ps_bids := []\<rparr>) xs)"
    by (rule Cons.IH)
  ultimately show ?case
    using interpret_bid_bids_prefix [of J breq response "fst x" st "snd x"] by simp
qed

lemma interpret_bid_same_ids:
  assumes "ps_bids st = ps_bids st'" "ps_oneCodeDetection st = ps_oneCodeDetection st'"
    "site_id (ps_site st) = site_id (ps_site st')" "site_slot (ps_site st) = site_slot (ps_site st')"
  shows "ps_bids (interpret_bid J breq response s st u) = ps_bids (interpret_bid J breq response s st' u) \<and>
         ps_oneCodeDetection (interpret_bid J breq response s st u) =
           ps_oneCodeDetection (interpret_bid J breq response s st' u) \<and>
         site_id (ps_site (interpret_bid J breq response s st u)) =
           site_id (ps_site (interpret_bid J breq response s st' u)) \<and>
         site_slot (ps_site (interpret_bid J breq response s st u)) =
           site_slot (ps_site (interpret_bid J breq response s st' u))"
proof -
  have site: "site_id (update_site (ps_site st) u) = site_id (update_site (ps_site st') u)"
      "site_slot (update_site (ps_site st) u) = site_slot (update_site (ps_site st') u)"
    using assms(3,4) by (simp_all add: update_site_def Let_def split: option.splits)
  have base: "base_bid breq response s (ps_site st) r u = base_bid breq response s (ps_site st') r u" for r
    by (simp add: base_bid_def Let_def assms(4) split: option.splits)
  show ?thesis
    using assms(1,2) site
    by (simp add: interpret_bid_def Let_def base split: option.splits)
qed

lemma interpret_bids_same_ids:
  assumes "ps_bids st = ps_bids st'" "ps_oneCodeDetection st = ps_oneCodeDetection st'"
    "site_id (ps_site st) = site_id (ps_site st')" "site_slot (ps_site st) = site_slot (ps_site st')"
  shows "ps_bids (interpret_bids J breq response st xs) = ps_bids (interpret_bids J breq response st' xs) \<and>
         ps_oneCodeDetection (interpret_bids J breq response st xs) =
           ps_oneCodeDetection (interpret_bids J breq response st' xs)"
  using assms
proof (induction xs arbitrary: st st')
  case Nil
  then show ?case by simp
next
  case (Cons x xs)
  from interpret_bid_same_ids [OF Cons.prems, of J breq response "fst x" "snd x"]
  show ?case
    using Cons.IH [of "interpret_bid J breq response (fst x) st (snd x)"
                      "interpret_bid J breq response (fst x) st' (snd x)"]
    by simp
qed

text \<open>
  In the loops, a bid whose \<^verbatim>\<open>impid\<close> equals the derived id of no bid request adds no bid
  and writes no store entry; the bids that the loops yield are those collected before that
  bid followed by those the later bids yield. When the unmatched bid names neither a site
  nor a slot, the bids and the store are those of the response without it.
\<close>

lemma unmatched_bid_dropped_by_loops:
  assumes "find_bidRequest (bids (bidderRequest request)) (sb_impid u) = None"
    and "wire_bids response = pre @ (s, u) # post"
    and "st = interpret_bids J (bidderRequest request) response (initial_state store response request) pre"
    and "st' = interpret_bid J (bidderRequest request) response s st u"
  shows "ps_bids st' = ps_bids st \<and>
         ps_oneCodeDetection st' = ps_oneCodeDetection st \<and>
         ps_bids (interpretResponse_body J store response request) =
           ps_bids st @ ps_bids (interpret_bids J (bidderRequest request) response (st'\<lparr>ps_bids := []\<rparr>) post) \<and>
         (ext_siteid_of u = None \<and> ext_slotid_of u = None \<longrightarrow>
            ps_bids (interpretResponse_body J store response request) =
              ps_bids (interpret_bids J (bidderRequest request) response
                         (initial_state store response request) (pre @ post)) \<and>
            ps_oneCodeDetection (interpretResponse_body J store response request) =
              ps_oneCodeDetection (interpret_bids J (bidderRequest request) response
                         (initial_state store response request) (pre @ post)))"
proof -
  let ?run = "interpret_bids J (bidderRequest request) response"
  have st': "st' = st\<lparr>ps_site := update_site (ps_site st) u\<rparr>"
    using assms(1,4) by (simp add: interpret_bid_unmatched)
  have whole: "interpretResponse_body J store response request = ?run st' post"
    using assms(2,3,4) by (simp add: interpretResponse_as_bids interpret_bids_append)
  have kept: "ps_bids (interpretResponse_body J store response request) =
      ps_bids st @ ps_bids (?run (st'\<lparr>ps_bids := []\<rparr>) post)"
    using interpret_bids_bids_prefix [of J "bidderRequest request" response st' post] st'
    by (simp add: whole)
  have without: "ps_bids (?run st' post) = ps_bids (?run st post) \<and>
      ps_oneCodeDetection (?run st' post) = ps_oneCodeDetection (?run st post)"
    if "ext_siteid_of u = None" "ext_slotid_of u = None"
  proof (rule interpret_bids_same_ids)
    show "ps_bids st' = ps_bids st" "ps_oneCodeDetection st' = ps_oneCodeDetection st"
      by (simp_all add: st')
    show "site_id (ps_site st') = site_id (ps_site st)" "site_slot (ps_site st') = site_slot (ps_site st)"
      using that
      by (simp_all add: st' update_site_def ext_siteid_of_def ext_slotid_of_def Let_def
            split: option.splits)
  qed
  have "?run (initial_state store response request) (pre @ post) = ?run st post"
    by (simp add: interpret_bids_append assms(3))
  with kept without whole st' show ?thesis by simp
qed

lemma unmatched_bid_dropped_example:
  "find_bidRequest (bids (bidderRequest (request_of [onecode_request] (Some ''7''))))
     (sb_impid (banner_bid ''zzz'' 1)) = None \<and>
   wire_bids (response_of [banner_bid ''zzz'' 1, banner_bid ''bidid-b2'' (3 / 2)]) =
     [] @ (Some ''dsp1'', banner_bid ''zzz'' 1) # [(Some ''dsp1'', banner_bid ''bidid-b2'' (3 / 2))] \<and>
   ext_siteid_of (banner_bid ''zzz'' 1) = None \<and> ext_slotid_of (banner_bid ''zzz'' 1) = None \<and>
   map requestId (ps_bids (interpretResponse_body no_json Map.empty
       (response_of [banner_bid ''zzz'' 1, banner_bid ''bidid-b2'' (3 / 2)])
       (request_of [onecode_request] (Some ''7'')))) = [''b2''] \<and>
   ps_oneCodeDetection (interpretResponse_body no_json Map.empty
       (response_of [banner_bid ''zzz'' 1, banner_bid ''bidid-b2'' (3 / 2)])
       (request_of [onecode_request] (Some ''7''))) ''b2'' = Some (''7'', None)"
proof -
  let ?req = "request_of [onecode_request] (Some ''7'')"
  let ?resp = "response_of [banner_bid ''zzz'' 1, banner_bid ''bidid-b2'' (3 / 2)]"
  let ?u = "banner_bid ''zzz'' 1"
  let ?v = "banner_bid ''bidid-b2'' (3 / 2)"
  let ?st = "initial_state Map.empty ?resp ?req"
  have breq: "bidderRequest ?req = \<lparr>auctionId = Some ''a1'', bids = [onecode_request]\<rparr>"
    by (simp add: request_of_def)
  have unm: "find_bidRequest (bids (bidderRequest ?req)) (sb_impid ?u) = None"
    unfolding breq
    by (simp add: find_bidRequest_def currentBidId_def unpackParams_def onecode_request_def
          no_params_def banner_bid_def)
  have m: "find_bidRequest [onecode_request] (sb_impid ?v) = Some onecode_request"
    by (simp add: find_bidRequest_def currentBidId_def unpackParams_def onecode_request_def
          no_params_def banner_bid_def)
  have wb: "wire_bids ?resp = [] @ (Some ''dsp1'', ?u) # [(Some ''dsp1'', ?v)]"
    by (simp add: wire_bids_def response_of_def)
  have ext: "ext_siteid_of ?u = None" "ext_slotid_of ?u = None"
    by (simp_all add: ext_siteid_of_def ext_slotid_of_def banner_bid_def)
  have st: "?st = interpret_bids no_json (bidderRequest ?req) ?resp ?st []"
    by simp
  note t = unmatched_bid_dropped_by_loops [OF unm wb st refl]
  have alone: "interpret_bids no_json (bidderRequest ?req) ?resp ?st ([] @ [(Some ''dsp1'', ?v)]) =
      interpret_bid no_json \<lparr>auctionId = Some ''a1'', bids = [onecode_request]\<rparr> ?resp (Some ''dsp1'') ?st ?v"
    by (simp add: breq)
  have res: "map requestId (ps_bids (interpret_bid no_json \<lparr>auctionId = Some ''a1'', bids = [onecode_request]\<rparr>
                 ?resp (Some ''dsp1'') ?st ?v)) = [''b2''] \<and>
             ps_oneCodeDetection (interpret_bid no_json \<lparr>auctionId = Some ''a1'', bids = [onecode_request]\<rparr>
                 ?resp (Some ''dsp1'') ?st ?v) ''b2'' = Some (''7'', None)"
    using m
    by (simp add: interpret_bid_def initial_site_def request_of_def update_site_def empty_site_def
          classify_bid_def isVideoAd_def isNativeAd_def base_bid_def cpm_positive_def Let_def
          banner_bid_def onecode_request_def)
  let ?out = "interpretResponse_body no_json Map.empty ?resp ?req"
  from t ext have same:
    "ps_bids ?out =
       ps_bids (interpret_bids no_json (bidderRequest ?req) ?resp ?st ([] @ [(Some ''dsp1'', ?v)]))"
    "ps_oneCodeDetection ?out =
       ps_oneCodeDetection (interpret_bids no_json (bidderRequest ?req) ?resp ?st ([] @ [(Some ''dsp1'', ?v)]))"
    by blast+
  have out: "map requestId (ps_bids ?out) = [''b2'']" "ps_oneCodeDetection ?out ''b2'' = Some (''7'', None)"
    using res unfolding same alone by blast+
  show ?thesis
    using unm wb ext out by blast
qed

text \<open>
  Claim C6, for the response of the bids \<^verbatim>\<open>zzz\<close> and \<^verbatim>\<open>bidid-b2\<close> to the request of the slot
  \<^verbatim>\<open>b2\<close>: the bid \<^verbatim>\<open>zzz\<close> matches no request. \<^verbatim>\<open>interpretResponse\<close> raises, for this
  response as for every other, the error of the converter, whose call stands before the
  loops and is handed \<^verbatim>\<open>request.data\<close>; the bid for \<^verbatim>\<open>b2\<close>, which the loops yield, is
  not returned.
\<close>

theorem unmatched_bid_response_raises:
  "find_bidRequest (bids (bidderRequest (request_of [onecode_request] (Some ''7''))))
     (sb_impid (banner_bid ''zzz'' 1)) = None \<and>
   interpretResponse converter_fromORTB no_json Map.empty
     (response_of [banner_bid ''zzz'' 1, banner_bid ''bidid-b2'' (3 / 2)])
     (request_of [onecode_request] (Some ''7'')) = Inl PlainError \<and>
   interpretResponse converter_fromORTB J store response request = Inl PlainError \<and>
   map requestId (ps_bids (interpretResponse_body no_json Map.empty
       (response_of [banner_bid ''zzz'' 1, banner_bid ''bidid-b2'' (3 / 2)])
       (request_of [onecode_request] (Some ''7'')))) = [''b2'']"
  using unmatched_bid_dropped_example
  by (simp add: interpretResponse_def converter_fromORTB_def)

text \<open>The site id that a bid is judged by is carried from bid to bid.\<close>

lemma site_id_update_site:
  "site_id (update_site site u) = (case ext_siteid_of u of None \<Rightarrow> site_id site | Some v \<Rightarrow> Some v)"
  by (simp add: update_site_def ext_siteid_of_def Let_def split: option.splits)

lemma carried_site_id_snoc:
  "carried_site_id start (us @ [u]) =
     (case ext_siteid_of u of None \<Rightarrow> carried_site_id start us | Some v \<Rightarrow> Some v)"
  by (simp add: carried_site_id_def split: option.splits)

lemma site_id_interpret_bids:
  "site_id (ps_site (interpret_bids J breq response st xs)) =
     carried_site_id (site_id (ps_site st)) (map snd xs)"
proof (induction xs rule: rev_induct)
  case Nil
  then show ?case by (simp add: carried_site_id_def)
next
  case (snoc x xs)
  then show ?case
    by (simp add: interpret_bids_append interpret_bid_site site_id_update_site carried_site_id_snoc
          split: option.splits)
qed

lemma site_id_initial_site: "site_id (initial_site response request) = request_site_id request"
  by (simp add: initial_site_def request_site_id_def empty_site_def split: option.splits)

lemma placeholder_includes_bidid: "is_placeholder sid \<Longrightarrow> strIncludes sid ''bidid''"
proof -
  assume p: "is_placeholder sid"
  then obtain c cs where sid: "sid = c # cs"
    by (cases sid) (auto simp: is_placeholder_def)
  have "take 5 sid = take 5 (take 6 sid)"
    by simp
  also have "\<dots> = ''bidid''"
    using p by (simp add: is_placeholder_def)
  finally have "take 5 (c # cs) = ''bidid''"
    unfolding sid .
  moreover have "length ''bidid'' = 5"
    by simp
  ultimately have "take (length ''bidid'') (c # cs) = ''bidid''"
    by (simp only:)
  then show ?thesis
    unfolding sid using strIncludes.simps(2) [of c cs "''bidid''"] by blast
qed

text \<open>
  The request carries the site id \<^verbatim>\<open>bidid-b2\<close>; the first bid of the response matches no
  request and names the site 8816, the second matches the request and names no site. The
  site id of the request is a placeholder; the loops judge the second bid by the site id
  8816 left by the first bid, yield a bid for it and write the store.
\<close>

lemma site_id_carried_example:
  "find_bidRequest (bids (bidderRequest (request_of [onecode_request] (Some ''bidid-b2''))))
     (sb_impid (banner_bid ''bidid-b2'' (3 / 2))) = Some onecode_request \<and>
   resolved_site_id_spec (request_of [onecode_request] (Some ''bidid-b2''))
     (banner_bid ''bidid-b2'' (3 / 2)) = Some ''bidid-b2'' \<and>
   is_placeholder ''bidid-b2'' \<and>
   map requestId (ps_bids (interpretResponse_body no_json Map.empty
       (response_of [sited_bid ''zzz'' 1 ''8816'', banner_bid ''bidid-b2'' (3 / 2)])
       (request_of [onecode_request] (Some ''bidid-b2'')))) = [''b2''] \<and>
   ps_oneCodeDetection (interpretResponse_body no_json Map.empty
       (response_of [sited_bid ''zzz'' 1 ''8816'', banner_bid ''bidid-b2'' (3 / 2)])
       (request_of [onecode_request] (Some ''bidid-b2''))) ''b2'' = Some (''8816'', None)"
proof -
  have m: "find_bidRequest [onecode_request] (Some ''bidid-b2'') = Some onecode_request"
      "find_bidRequest [onecode_request] (Some ''zzz'') = None"
    by (simp_all add: find_bidRequest_def currentBidId_def unpackParams_def onecode_request_def
          no_params_def)
  have bid: "bidId onecode_request = ''b2''"
    by (simp add: onecode_request_def)
  have "map requestId (ps_bids (interpretResponse_body no_json Map.empty
       (response_of [sited_bid ''zzz'' 1 ''8816'', banner_bid ''bidid-b2'' (3 / 2)])
       (request_of [onecode_request] (Some ''bidid-b2'')))) = [''b2''] \<and>
   ps_oneCodeDetection (interpretResponse_body no_json Map.empty
       (response_of [sited_bid ''zzz'' 1 ''8816'', banner_bid ''bidid-b2'' (3 / 2)])
       (request_of [onecode_request] (Some ''bidid-b2''))) ''b2'' = Some (''8816'', None)"
    using m bid
    by (simp add: interpretResponse_body_def interpret_seatbid_def interpret_bid_def initial_state_def
          initial_site_def request_of_def response_of_def update_site_def empty_site_def
          classify_bid_def isVideoAd_def isNativeAd_def base_bid_def cpm_positive_def Let_def
          banner_bid_def sited_bid_def no_ext_def truthy_def)
  moreover have "resolved_site_id_spec (request_of [onecode_request] (Some ''bidid-b2''))
     (banner_bid ''bidid-b2'' (3 / 2)) = Some ''bidid-b2''"
    by (simp add: resolved_site_id_spec_def request_site_id_def ext_siteid_of_def banner_bid_def
          request_of_def empty_site_def)
  ultimately show ?thesis
    using m by (simp add: is_placeholder_def request_of_def banner_bid_def)
qed

text \<open>
  In the loops, the site id of a bid is its \<^verbatim>\<open>ext.siteid\<close>, else the \<^verbatim>\<open>ext.siteid\<close> of
  the last earlier bid of the response that has one, else the site id of the request. A
  matched bid whose site id so resolved is a placeholder adds no bid and writes no store
  entry; a bid that adds a bid or changes the store is matched and has a resolved site id
  that is not empty and no placeholder. The later bids are run.
\<close>

lemma carried_placeholder_dropped_by_loops:
  assumes "wire_bids response = pre @ (s, u) # post"
    and "st = interpret_bids J (bidderRequest request) response (initial_state store response request) pre"
    and "st' = interpret_bid J (bidderRequest request) response s st u"
    and "resolved = carried_site_id (request_site_id request) (map snd pre @ [u])"
  shows "(find_bidRequest (bids (bidderRequest request)) (sb_impid u) \<noteq> None \<and>
            (\<exists>sid. resolved = Some sid \<and> is_placeholder sid) \<longrightarrow>
            ps_bids st' = ps_bids st \<and> ps_oneCodeDetection st' = ps_oneCodeDetection st) \<and>
         (ps_bids st' \<noteq> ps_bids st \<or> ps_oneCodeDetection st' \<noteq> ps_oneCodeDetection st \<longrightarrow>
            find_bidRequest (bids (bidderRequest request)) (sb_impid u) \<noteq> None \<and>
            (\<exists>sid. resolved = Some sid \<and> sid \<noteq> [] \<and> \<not> is_placeholder sid)) \<and>
         ps_bids (interpretResponse_body J store response request) =
           ps_bids st' @ ps_bids (interpret_bids J (bidderRequest request) response (st'\<lparr>ps_bids := []\<rparr>) post)"
proof -
  let ?breq = "bidderRequest request"
  have res: "site_id (update_site (ps_site st) u) = resolved"
    by (simp add: assms(2,4) site_id_interpret_bids site_id_initial_site carried_site_id_snoc
          site_id_update_site split: option.splits)
  note b = interpret_bid_bids [of J ?breq response s st u]
  note o = interpret_bid_store [of J ?breq response s st u]
  have discard: "ps_bids st' = ps_bids st \<and> ps_oneCodeDetection st' = ps_oneCodeDetection st"
    if "resolved = Some sid" "is_placeholder sid" for sid
    using b o that placeholder_includes_bidid [of sid] by (auto simp: res assms(3))
  have kept: "find_bidRequest (bids ?breq) (sb_impid u) \<noteq> None \<and>
      (\<exists>sid. resolved = Some sid \<and> sid \<noteq> [] \<and> \<not> is_placeholder sid)"
    if "ps_bids st' \<noteq> ps_bids st \<or> ps_oneCodeDetection st' \<noteq> ps_oneCodeDetection st"
    using b o that placeholder_includes_bidid by (auto simp: res assms(3))
  have "interpretResponse_body J store response request = interpret_bids J ?breq response st' post"
    using assms(1,2,3) by (simp add: interpretResponse_as_bids interpret_bids_append)
  then have "ps_bids (interpretResponse_body J store response request) =
      ps_bids st' @ ps_bids (interpret_bids J ?breq response (st'\<lparr>ps_bids := []\<rparr>) post)"
    using interpret_bids_bids_prefix [of J ?breq response st' post] by simp
  with discard kept show ?thesis by blast
qed

lemma carried_placeholder_dropped_example:
  "wire_bids (response_of [sited_bid ''zzz'' 1 ''bidid-x'', banner_bid ''bidid-b2'' (3 / 2)]) =
     [(Some ''dsp1'', sited_bid ''zzz'' 1 ''bidid-x'')] @ (Some ''dsp1'', banner_bid ''bidid-b2'' (3 / 2)) # [] \<and>
   find_bidRequest (bids (bidderRequest (request_of [onecode_request] (Some ''8816''))))
     (sb_impid (banner_bid ''bidid-b2'' (3 / 2))) \<noteq> None \<and>
   carried_site_id (request_site_id (request_of [onecode_request] (Some ''8816'')))
     (map snd [(Some ''dsp1'', sited_bid ''zzz'' 1 ''bidid-x'')] @ [banner_bid ''bidid-b2'' (3 / 2)]) =
     Some ''bidid-x'' \<and>
   is_placeholder ''bidid-x'' \<and>
   ps_bids (interpretResponse_body no_json Map.empty
       (response_of [sited_bid ''zzz'' 1 ''bidid-x'', banner_bid ''bidid-b2'' (3 / 2)])
       (request_of [onecode_request] (Some ''8816''))) = [] \<and>
   wire_bids (response_of [banner_bid ''bidid-b2'' (3 / 2)]) =
     [] @ (Some ''dsp1'', banner_bid ''bidid-b2'' (3 / 2)) # [] \<and>
   ps_bids (interpretResponse_body no_json Map.empty (response_of [banner_bid ''bidid-b2'' (3 / 2)])
       (request_of [onecode_request] (Some ''7''))) \<noteq> [] \<and>
   carried_site_id (request_site_id (request_of [onecode_request] (Some ''7'')))
     (map snd ([] :: (string option \<times> server_bid) list) @ [banner_bid ''bidid-b2'' (3 / 2)]) = Some ''7'' \<and>
   (\<exists>sid. carried_site_id (request_site_id (request_of [onecode_request] (Some ''7'')))
            (map snd ([] :: (string option \<times> server_bid) list) @ [banner_bid ''bidid-b2'' (3 / 2)]) = Some sid \<and>
          sid \<noteq> [] \<and> \<not> is_placeholder sid)"
proof -
  let ?v = "banner_bid ''bidid-b2'' (3 / 2)"
  let ?w = "sited_bid ''zzz'' 1 ''bidid-x''"
  let ?RA = "response_of [?w, ?v]"
  let ?QA = "request_of [onecode_request] (Some ''8816'')"
  let ?RB = "response_of [?v]"
  let ?QB = "request_of [onecode_request] (Some ''7'')"
  let ?breq = "\<lparr>auctionId = Some ''a1'', bids = [onecode_request]\<rparr>"
  have breq: "bidderRequest (request_of [onecode_request] sid) = ?breq" for sid
    by (simp add: request_of_def)
  have m: "find_bidRequest (bids ?breq) (sb_impid ?v) = Some onecode_request"
      "find_bidRequest (bids ?breq) (sb_impid ?w) = None"
    by (simp_all add: find_bidRequest_def currentBidId_def unpackParams_def onecode_request_def
          no_params_def banner_bid_def sited_bid_def)
  have wbA: "wire_bids ?RA = [(Some ''dsp1'', ?w)] @ (Some ''dsp1'', ?v) # []"
    and wbB: "wire_bids ?RB = [] @ (Some ''dsp1'', ?v) # []"
    by (simp_all add: wire_bids_def response_of_def)
  have resA: "carried_site_id (request_site_id ?QA) (map snd [(Some ''dsp1'', ?w)] @ [?v]) = Some ''bidid-x''"
    and resB: "carried_site_id (request_site_id ?QB) (map snd ([] :: (string option \<times> server_bid) list) @ [?v]) = Some ''7''"
    by (simp_all add: carried_site_id_def request_site_id_def request_of_def empty_site_def
          ext_siteid_of_def sited_bid_def banner_bid_def no_ext_def)
  have ph: "is_placeholder ''bidid-x''"
    by (simp add: is_placeholder_def)
  note tA = carried_placeholder_dropped_by_loops [OF wbA refl refl refl, where J = no_json
      and store = Map.empty and request = ?QA]
  note tB = carried_placeholder_dropped_by_loops [OF wbB refl refl refl, where J = no_json
      and store = Map.empty and request = ?QB]
  let ?stA = "interpret_bids no_json (bidderRequest ?QA) ?RA (initial_state Map.empty ?RA ?QA)
                [(Some ''dsp1'', ?w)]"
  have preA: "ps_bids ?stA = []"
    using m(2) by (simp add: breq interpret_bid_unmatched)
  have "ps_bids (interpret_bid no_json (bidderRequest ?QA) ?RA (Some ''dsp1'') ?stA ?v) = ps_bids ?stA"
    using tA m(1) resA ph unfolding breq by blast
  moreover have "ps_bids (interpretResponse_body no_json Map.empty ?RA ?QA) =
      ps_bids (interpret_bid no_json (bidderRequest ?QA) ?RA (Some ''dsp1'') ?stA ?v)"
    using tA by simp
  ultimately have outA: "ps_bids (interpretResponse_body no_json Map.empty ?RA ?QA) = []"
    using preA by simp
  have outB: "ps_bids (interpretResponse_body no_json Map.empty ?RB ?QB) \<noteq> []"
    using m(1)
    by (simp add: interpretResponse_body_def interpret_seatbid_def interpret_bid_def initial_state_def
          initial_site_def request_of_def response_of_def update_site_def empty_site_def
          classify_bid_def isVideoAd_def isNativeAd_def base_bid_def cpm_positive_def Let_def
          banner_bid_def truthy_def)
  have "ps_bids (interpretResponse_body no_json Map.empty ?RB ?QB) =
      ps_bids (interpret_bid no_json (bidderRequest ?QB) ?RB (Some ''dsp1'')
                 (interpret_bids no_json (bidderRequest ?QB) ?RB (initial_state Map.empty ?RB ?QB) []) ?v)"
    using tB by simp
  with outB have neqB: "ps_bids (interpret_bid no_json (bidderRequest ?QB) ?RB (Some ''dsp1'')
                 (interpret_bids no_json (bidderRequest ?QB) ?RB (initial_state Map.empty ?RB ?QB) []) ?v) \<noteq>
      ps_bids (interpret_bids no_json (bidderRequest ?QB) ?RB (initial_state Map.empty ?RB ?QB) [])"
    by simp
  have exB: "\<exists>sid. carried_site_id (request_site_id ?QB) (map snd ([] :: (string option \<times> server_bid) list) @ [?v]) = Some sid \<and>
      sid \<noteq> [] \<and> \<not> is_placeholder sid"
    by (rule conjunct2 [OF mp [OF tB [THEN conjunct2, THEN conjunct1] disjI1 [OF neqB]]])
  show ?thesis
    using wbA wbB m(1) resA resB ph outA outB exB unfolding breq by blast
qed

text \<open>
  Claim C7, for the response of one bid that matches the request of the slot \<^verbatim>\<open>b2\<close> and
  names the site \<^verbatim>\<open>bidid-x\<close>, a placeholder: \<^verbatim>\<open>interpretResponse\<close> raises the error of the
  converter, whose call stands before the loops and is handed \<^verbatim>\<open>request.data\<close>. The
  loops do as the claim says: they yield no bid for it and leave the store as it was.
\<close>

theorem placeholder_bid_response_raises:
  "find_bidRequest (bids (bidderRequest (request_of [onecode_request] (Some ''8816''))))
     (sb_impid (sited_bid ''bidid-b2'' (3 / 2) ''bidid-x'')) = Some onecode_request \<and>
   resolved_site_id_spec (request_of [onecode_request] (Some ''8816''))
     (sited_bid ''bidid-b2'' (3 / 2) ''bidid-x'') = Some ''bidid-x'' \<and>
   is_placeholder ''bidid-x'' \<and>
   interpretResponse converter_fromORTB no_json Map.empty
     (response_of [sited_bid ''bidid-b2'' (3 / 2) ''bidid-x''])
     (request_of [onecode_request] (Some ''8816'')) = Inl PlainError \<and>
   ps_bids (interpretResponse_body no_json Map.empty
     (response_of [sited_bid ''bidid-b2'' (3 / 2) ''bidid-x''])
     (request_of [onecode_request] (Some ''8816''))) = [] \<and>
   ps_oneCodeDetection (interpretResponse_body no_json Map.empty
     (response_of [sited_bid ''bidid-b2'' (3 / 2) ''bidid-x''])
     (request_of [onecode_request] (Some ''8816''))) = Map.empty"
proof -
  have m: "find_bidRequest [onecode_request] (Some ''bidid-b2'') = Some onecode_request"
    by (simp add: find_bidRequest_def currentBidId_def unpackParams_def onecode_request_def
          no_params_def)
  have loops: "ps_bids (interpretResponse_body no_json Map.empty
       (response_of [sited_bid ''bidid-b2'' (3 / 2) ''bidid-x''])
       (request_of [onecode_request] (Some ''8816''))) = [] \<and>
     ps_oneCodeDetection (interpretResponse_body no_json Map.empty
       (response_of [sited_bid ''bidid-b2'' (3 / 2) ''bidid-x''])
       (request_of [onecode_request] (Some ''8816''))) = Map.empty"
    using m
    by (simp add: interpretResponse_body_def interpret_seatbid_def interpret_bid_def initial_state_def
          initial_site_def request_of_def response_of_def update_site_def empty_site_def
          classify_bid_def isVideoAd_def isNativeAd_def base_bid_def cpm_positive_def Let_def
          banner_bid_def sited_bid_def no_ext_def truthy_def)
  have spec: "resolved_site_id_spec (request_of [onecode_request] (Some ''8816''))
     (sited_bid ''bidid-b2'' (3 / 2) ''bidid-x'') = Some ''bidid-x''"
    by (simp add: resolved_site_id_spec_def ext_siteid_of_def sited_bid_def)
  show ?thesis
    using m loops spec
    by (simp add: is_placeholder_def request_of_def banner_bid_def sited_bid_def
          interpretResponse_def converter_fromORTB_def)
qed

subsection \<open>Size labels\<close>

lemma converter_imp_label:
  "fst (converter_imp cfg st b) = fst (assign_pbsize st (adUnitCode b) (sizes b))"
  "pbsize (snd (converter_imp cfg st b)) = snd (assign_pbsize st (adUnitCode b) (sizes b))"
  by (simp_all add: converter_imp_def Let_def split: prod.splits)

lemma build_imps_Cons:
  "build_imps cfg st (b # bs) =
     (fst (build_imps cfg (fst (converter_imp cfg st b)) bs),
      snd (converter_imp cfg st b) # snd (build_imps cfg (fst (converter_imp cfg st b)) bs))"
  by (simp add: case_prod_beta Let_def)

lemma build_imps_snoc:
  "build_imps cfg st (bs @ [b]) =
     (fst (converter_imp cfg (fst (build_imps cfg st bs)) b),
      snd (build_imps cfg st bs) @ [snd (converter_imp cfg (fst (build_imps cfg st bs)) b)])"
  by (induction bs arbitrary: st) (simp_all add: build_imps_Cons del: build_imps.simps(2))

lemma length_build_imps: "length (snd (build_imps cfg st bs)) = length bs"
  by (induction bs arbitrary: st) (simp_all add: build_imps_Cons del: build_imps.simps(2))

lemma labels_of_snoc:
  "labels_of cfg (bs @ [b]) =
     labels_of cfg bs @
       [snd (assign_pbsize (fst (build_imps cfg initial_labels bs)) (adUnitCode b) (sizes b))]"
  by (simp add: labels_of_def build_imps_snoc converter_imp_label)

lemma length_labels_of [simp]: "length (labels_of cfg bs) = length bs"
  by (simp add: labels_of_def length_build_imps)

text \<open>The largest size is one of the sizes, of an area that no other size exceeds; among
  sizes whose areas are below the limit the areas are compared exactly.\<close>

lemma round_double_small: "n < safe_limit \<Longrightarrow> round_double n = n"
  by (simp add: round_double_def)

lemma foldl_pick_largest:
  fixes key :: "'a \<Rightarrow> nat"
  shows "foldl (\<lambda>prev next. if key prev \<le> key next then next else prev) s rest \<in> set (s # rest) \<and>
         (\<forall>t \<in> set (s # rest).
            key t \<le> key (foldl (\<lambda>prev next. if key prev \<le> key next then next else prev) s rest))"
proof -
  define f where "f = (\<lambda>prev next. if key prev \<le> key next then next else prev)"
  have step: "f p n = p \<or> f p n = n" "key p \<le> key (f p n)" "key n \<le> key (f p n)" for p n
    by (simp_all add: f_def)
  have "foldl f s rest \<in> set (s # rest) \<and> (\<forall>t \<in> set (s # rest). key t \<le> key (foldl f s rest))"
  proof (induction rest arbitrary: s)
    case Nil
    then show ?case by simp
  next
    case (Cons x rest)
    let ?r = "foldl f (f s x) rest"
    from Cons.IH [of "f s x"] have mem: "?r = f s x \<or> ?r \<in> set rest"
      and top: "key (f s x) \<le> key ?r" "\<forall>t \<in> set rest. key t \<le> key ?r"
      by simp_all
    from step(2) [of s x] top(1) have ks: "key s \<le> key ?r"
      by (rule le_trans)
    from step(3) [of x s] top(1) have kx: "key x \<le> key ?r"
      by (rule le_trans)
    from mem step(1) [of s x] have "?r = s \<or> ?r = x \<or> ?r \<in> set rest"
      by (elim disjE) simp_all
    with ks kx top(2) show ?case
      by simp
  qed
  then show ?thesis
    unfolding f_def .
qed

lemma impSize_largest:
  "szs \<noteq> [] \<Longrightarrow>
     \<exists>s \<in> set szs. impSize szs = join_x s \<and>
       (\<forall>t \<in> set szs. round_double (fst t * snd t) \<le> round_double (fst s * snd s))"
proof -
  assume "szs \<noteq> []"
  then obtain s rest where szs: "szs = s # rest"
    by (cases szs) auto
  show ?thesis
    using foldl_pick_largest [of "\<lambda>t. round_double (fst t * snd t)" s rest]
    unfolding szs impSize_def by auto
qed

lemma impSize_largest_exact:
  assumes "szs \<noteq> []" "\<forall>t \<in> set szs. fst t * snd t < safe_limit"
  shows "\<exists>s \<in> set szs. impSize szs = join_x s \<and> (\<forall>t \<in> set szs. fst t * snd t \<le> fst s * snd s)"
proof -
  from impSize_largest [OF assms(1)] obtain s where s: "s \<in> set szs" "impSize szs = join_x s"
      "\<forall>t \<in> set szs. round_double (fst t * snd t) \<le> round_double (fst s * snd s)"
    by blast
  have "\<forall>t \<in> set szs. fst t * snd t \<le> fst s * snd s"
    using s(1,3) assms(2) by (simp add: round_double_small)
  with s show ?thesis by blast
qed

text \<open>A size names no inherited member: its text starts with a digit.\<close>

lemma string_of_nat_digit:
  "\<exists>d rest. string_of_nat n = d # rest \<and> d \<in> set ''0123456789''"
proof (induction n rule: string_of_nat.induct)
  case (1 n)
  show ?case
  proof (cases "n < 10")
    case True
    then have "''0123456789'' ! n \<in> set ''0123456789''"
      by (intro nth_mem) simp
    with True show ?thesis
      by (subst string_of_nat.simps) (simp add: digit_char_def)
  next
    case False
    with 1 obtain d rest where "string_of_nat (n div 10) = d # rest" "d \<in> set ''0123456789''"
      by blast
    with False show ?thesis
      by (subst string_of_nat.simps) simp
  qed
qed

lemma impSize_digit: "\<exists>d rest. impSize szs = d # rest \<and> d \<in> set ''0123456789''"
proof (cases szs)
  case Nil
  then show ?thesis by (simp add: impSize_def)
next
  case (Cons s rest)
  obtain t where "impSize szs = join_x t"
    unfolding Cons impSize_def by simp
  with string_of_nat_digit [of "fst t"] show ?thesis
    by (auto simp: join_x_def)
qed

lemma impSize_not_inherited: "\<not> inherited_member (impSize szs)"
  using impSize_digit [of szs]
  by (auto simp: inherited_member_def Object_prototype_members_def)

text \<open>The three ways of an impression: the ad unit has a label, it is new, or its code
  names an inherited member.\<close>

lemma assign_pbsize_seen:
  "adUnitsCalled st code = Some (c # cs) \<Longrightarrow> assign_pbsize st code szs = (st, Label (c # cs))"
  by (simp add: assign_pbsize_def)

lemma assign_pbsize_new:
  "adUnitsCalled st code = None \<Longrightarrow> \<not> inherited_member code \<Longrightarrow>
   Suc (size_counter st (impSize szs)) < safe_limit \<Longrightarrow>
     assign_pbsize st code szs =
       (st\<lparr>adSizesCalled := (adSizesCalled st)(impSize szs \<mapsto> Suc (size_counter st (impSize szs))),
           adUnitsCalled := (adUnitsCalled st)(code \<mapsto>
              impSize szs @ ''_'' @ string_of_nat (Suc (size_counter st (impSize szs))))\<rparr>,
        Label (impSize szs @ ''_'' @ string_of_nat (Suc (size_counter st (impSize szs)))))"
  by (simp add: assign_pbsize_def new_adunit_def size_counter_def Let_def round_double_small
           split: option.splits)

lemma assign_pbsize_inherited:
  "adUnitsCalled st code = None \<Longrightarrow> inherited_member code \<Longrightarrow>
     assign_pbsize st code szs = (st, Inherited_member code)"
  by (simp add: assign_pbsize_def)

text \<open>The ad units of a sequence by the largest size of their first request.\<close>

lemma units_with_size_card:
  "units_with_size bs sz = card {code \<in> adUnitCode ` set bs. first_size bs code = Some sz}"
proof -
  let ?xs = "filter (\<lambda>code. first_size bs code = Some sz) (remdups (map adUnitCode bs))"
  have d: "distinct ?xs" by simp
  have "units_with_size bs sz = length ?xs"
    by (simp add: units_with_size_def)
  also have "\<dots> = card (set ?xs)"
    by (rule distinct_card [OF d, symmetric])
  also have "set ?xs = {code \<in> adUnitCode ` set bs. first_size bs code = Some sz}"
    by auto
  finally show ?thesis .
qed

lemma units_with_size_le: "units_with_size bs sz \<le> length bs"
proof -
  have "units_with_size bs sz \<le> length (remdups (map adUnitCode bs))"
    unfolding units_with_size_def by (rule length_filter_le)
  also have "\<dots> \<le> length (map adUnitCode bs)"
    by (rule length_remdups_leq)
  finally show ?thesis by simp
qed

lemma find_snoc:
  "find P (xs @ [y]) = (case find P xs of None \<Rightarrow> (if P y then Some y else None) | Some x \<Rightarrow> Some x)"
  by (induction xs) simp_all

lemma first_size_unseen: "code \<notin> adUnitCode ` set bs \<Longrightarrow> first_size bs code = None"
  by (auto simp: first_size_def find_None_iff)

lemma first_size_snoc:
  "first_size (bs @ [b]) code =
     (if code \<in> adUnitCode ` set bs then first_size bs code
      else if code = adUnitCode b then Some (impSize (sizes b)) else None)"
proof (cases "find (\<lambda>r. adUnitCode r = code) bs")
  case None
  then have "code \<notin> adUnitCode ` set bs"
    by (auto simp: find_None_iff)
  with None show ?thesis
    by (auto simp: first_size_def find_snoc)
next
  case (Some r)
  then have "code \<in> adUnitCode ` set bs"
    by (auto simp: find_Some_iff)
  with Some show ?thesis
    by (simp add: first_size_def find_snoc)
qed

lemma units_with_size_seen:
  "adUnitCode b \<in> adUnitCode ` set bs \<Longrightarrow> units_with_size (bs @ [b]) sz = units_with_size bs sz"
proof -
  assume seen: "adUnitCode b \<in> adUnitCode ` set bs"
  then have "{code \<in> adUnitCode ` set (bs @ [b]). first_size (bs @ [b]) code = Some sz} =
      {code \<in> adUnitCode ` set bs. first_size bs code = Some sz}"
    by (auto simp: first_size_snoc)
  then show ?thesis
    by (simp only: units_with_size_card)
qed

lemma units_with_size_new:
  "adUnitCode b \<notin> adUnitCode ` set bs \<Longrightarrow>
     units_with_size (bs @ [b]) sz =
       (if impSize (sizes b) = sz then Suc (units_with_size bs sz) else units_with_size bs sz)"
proof -
  assume new: "adUnitCode b \<notin> adUnitCode ` set bs"
  let ?S = "{code \<in> adUnitCode ` set bs. first_size bs code = Some sz}"
  have fin: "finite ?S" by simp
  have notin: "adUnitCode b \<notin> ?S" using new by simp
  note unseen = first_size_unseen [OF new]
  have "{code \<in> adUnitCode ` set (bs @ [b]). first_size (bs @ [b]) code = Some sz} =
      (if impSize (sizes b) = sz then insert (adUnitCode b) ?S else ?S)"
    using new unseen by (auto simp: first_size_snoc)
  then have "units_with_size (bs @ [b]) sz =
      card (if impSize (sizes b) = sz then insert (adUnitCode b) ?S else ?S)"
    by (simp only: units_with_size_card)
  also have "\<dots> = (if impSize (sizes b) = sz then Suc (card ?S) else card ?S)"
    using fin notin by simp
  finally show ?thesis
    by (simp only: units_with_size_card)
qed

lemma units_with_size_mono: "units_with_size bs sz \<le> units_with_size (bs @ cs) sz"
proof (induction cs rule: rev_induct)
  case Nil
  then show ?case by simp
next
  case (snoc c cs)
  have "units_with_size (bs @ cs) sz \<le> units_with_size ((bs @ cs) @ [c]) sz"
  proof (cases "adUnitCode c \<in> adUnitCode ` set (bs @ cs)")
    case True
    then show ?thesis by (simp only: units_with_size_seen)
  next
    case False
    from units_with_size_new [OF False, of sz] show ?thesis
      by (cases "impSize (sizes c) = sz") simp_all
  qed
  with snoc show ?case by simp
qed

text \<open>What the two maps hold after a sequence of bid requests, from empty maps, when no ad
  unit code names an inherited member: an entry for the ad units of the sequence and no
  other, each the label given at the requests of that ad unit, and for each size the number
  of ad units first seen with it.\<close>

lemma labels_invariant:
  assumes "\<forall>b \<in> set bs. \<not> inherited_member (adUnitCode b)" "length bs < safe_limit"
  shows
   "(\<forall>code. code \<notin> adUnitCode ` set bs \<longrightarrow>
       adUnitsCalled (fst (build_imps cfg initial_labels bs)) code = None) \<and>
    (\<forall>code l. adUnitsCalled (fst (build_imps cfg initial_labels bs)) code = Some l \<longrightarrow> l \<noteq> []) \<and>
    (\<forall>sz. size_counter (fst (build_imps cfg initial_labels bs)) sz = units_with_size bs sz) \<and>
    (\<forall>i < length bs.
       map_option Label (adUnitsCalled (fst (build_imps cfg initial_labels bs)) (adUnitCode (bs ! i))) =
         Some (labels_of cfg bs ! i))"
  using assms
proof (induction bs rule: rev_induct)
  case Nil
  show ?case
    by (simp add: initial_labels_def size_counter_def units_with_size_def)
next
  case (snoc b bs)
  let ?st = "fst (build_imps cfg initial_labels bs)"
  let ?st' = "fst (build_imps cfg initial_labels (bs @ [b]))"
  let ?c = "adUnitCode b"
  let ?label = "snd (assign_pbsize ?st ?c (sizes b))"
  from snoc.prems have own: "\<not> inherited_member ?c" and len: "Suc (length bs) < safe_limit"
    and pre: "\<forall>b \<in> set bs. \<not> inherited_member (adUnitCode b)" "length bs < safe_limit"
    by simp_all
  from snoc.IH [OF pre] have
    I1: "\<And>code. code \<notin> adUnitCode ` set bs \<Longrightarrow> adUnitsCalled ?st code = None" and
    I2: "\<And>code l. adUnitsCalled ?st code = Some l \<Longrightarrow> l \<noteq> []" and
    I3: "\<And>sz. size_counter ?st sz = units_with_size bs sz" and
    I4: "\<And>i. i < length bs \<Longrightarrow>
           map_option Label (adUnitsCalled ?st (adUnitCode (bs ! i))) = Some (labels_of cfg bs ! i)"
    by blast+
  have st': "?st' = fst (assign_pbsize ?st ?c (sizes b))"
    by (simp add: build_imps_snoc converter_imp_label)
  have old: "labels_of cfg (bs @ [b]) ! i = labels_of cfg bs ! i" "(bs @ [b]) ! i = bs ! i"
    if "i < length bs" for i
    using that by (simp_all add: labels_of_snoc nth_append)
  have new: "labels_of cfg (bs @ [b]) ! length bs = ?label" "(bs @ [b]) ! length bs = b"
    by (simp_all add: labels_of_snoc nth_append)
  show ?case
  proof (cases "?c \<in> adUnitCode ` set bs")
    case True
    then obtain i where i: "i < length bs" "adUnitCode (bs ! i) = ?c"
      by (auto simp: in_set_conv_nth)
    with I4 [of i] obtain l where seen: "adUnitsCalled ?st ?c = Some l"
      and li: "labels_of cfg bs ! i = Label l"
      by auto
    with I2 obtain x xs where lab: "l = x # xs"
      by (cases l) auto
    have same: "?st' = ?st" "?label = Label l"
      using assign_pbsize_seen [of ?st ?c x xs "sizes b"] seen lab by (simp_all add: st')
    have J1: "\<forall>code. code \<notin> adUnitCode ` set (bs @ [b]) \<longrightarrow> adUnitsCalled ?st' code = None"
      using I1 by (simp add: same)
    have J2: "\<forall>code l. adUnitsCalled ?st' code = Some l \<longrightarrow> l \<noteq> []"
      using I2 by (simp add: same)
    have J3: "\<forall>sz. size_counter ?st' sz = units_with_size (bs @ [b]) sz"
      using I3 True by (simp add: same units_with_size_seen)
    have J4: "map_option Label (adUnitsCalled ?st' (adUnitCode ((bs @ [b]) ! j))) =
        Some (labels_of cfg (bs @ [b]) ! j)"
      if "j < length (bs @ [b])" for j
    proof (cases "j < length bs")
      case True
      then show ?thesis using I4 [of j] by (simp add: old same)
    next
      case False
      with that have "j = length bs" by simp
      then show ?thesis using seen by (simp add: new same)
    qed
    from J1 J2 J3 J4 show ?thesis by blast
  next
    case False
    let ?sz = "impSize (sizes b)"
    let ?l = "?sz @ ''_'' @ string_of_nat (Suc (size_counter ?st ?sz))"
    have none: "adUnitsCalled ?st ?c = None"
      using I1 False by simp
    have "size_counter ?st ?sz \<le> length bs"
      by (simp add: I3 units_with_size_le)
    with len have small: "Suc (size_counter ?st ?sz) < safe_limit"
      by simp
    have units: "adUnitsCalled ?st' = (adUnitsCalled ?st)(?c \<mapsto> ?l)"
      and sizes: "adSizesCalled ?st' = (adSizesCalled ?st)(?sz \<mapsto> Suc (size_counter ?st ?sz))"
      and label: "?label = Label ?l"
      using assign_pbsize_new [OF none own small] by (simp_all add: st')
    have J1: "\<forall>code. code \<notin> adUnitCode ` set (bs @ [b]) \<longrightarrow> adUnitsCalled ?st' code = None"
      using I1 by (simp add: units)
    have J2: "\<forall>code l. adUnitsCalled ?st' code = Some l \<longrightarrow> l \<noteq> []"
      using I2 by (auto simp: units)
    have J3: "\<forall>sz. size_counter ?st' sz = units_with_size (bs @ [b]) sz"
      using I3 False by (simp add: units_with_size_new size_counter_def sizes)
    have J4: "map_option Label (adUnitsCalled ?st' (adUnitCode ((bs @ [b]) ! j))) =
        Some (labels_of cfg (bs @ [b]) ! j)"
      if "j < length (bs @ [b])" for j
    proof (cases "j < length bs")
      case True
      then have "adUnitCode (bs ! j) \<noteq> ?c"
        using False by (metis image_eqI nth_mem)
      with True show ?thesis using I4 [of j] by (simp add: old units)
    next
      case False
      with that have "j = length bs" by simp
      then show ?thesis by (simp add: new units label)
    qed
    from J1 J2 J3 J4 show ?thesis by blast
  qed
qed

text \<open>With ad unit codes that name no inherited member: an ad unit not seen before, whose
  largest size is S, gets the label S_n where n - 1 ad units were first seen with S before
  it; all impressions of one ad unit carry the same label; a counter equals the number of
  ad units first seen with its size, which later impressions never lower.\<close>

lemma new_unit_label:
  assumes "\<forall>r \<in> set (pre @ [b]). \<not> inherited_member (adUnitCode r)" "length (pre @ [b]) < safe_limit"
    and new: "adUnitCode b \<notin> adUnitCode ` set pre"
  shows "labels_of cfg (pre @ [b]) ! length pre =
      Label (impSize (sizes b) @ ''_'' @ string_of_nat (Suc (units_with_size pre (impSize (sizes b)))))"
proof -
  let ?st = "fst (build_imps cfg initial_labels pre)"
  from assms(1,2) have pre: "\<forall>r \<in> set pre. \<not> inherited_member (adUnitCode r)" "length pre < safe_limit"
    and own: "\<not> inherited_member (adUnitCode b)" and len: "Suc (length pre) < safe_limit"
    by simp_all
  have none: "adUnitsCalled ?st (adUnitCode b) = None"
    using labels_invariant [OF pre, of cfg] new by blast
  have count: "size_counter ?st (impSize (sizes b)) = units_with_size pre (impSize (sizes b))"
    using labels_invariant [OF pre, of cfg] by blast
  have "units_with_size pre (impSize (sizes b)) \<le> length pre"
    by (rule units_with_size_le)
  with len count have small: "Suc (size_counter ?st (impSize (sizes b))) < safe_limit"
    by simp
  show ?thesis
    using assign_pbsize_new [OF none own small] count
    by (simp add: labels_of_snoc nth_append)
qed

lemma same_unit_same_label:
  assumes "\<forall>r \<in> set bs. \<not> inherited_member (adUnitCode r)" "length bs < safe_limit"
    and "i < length bs" "j < length bs" "adUnitCode (bs ! i) = adUnitCode (bs ! j)"
  shows "labels_of cfg bs ! i = labels_of cfg bs ! j"
proof -
  let ?st = "fst (build_imps cfg initial_labels bs)"
  have "map_option Label (adUnitsCalled ?st (adUnitCode (bs ! i))) = Some (labels_of cfg bs ! i)"
    "map_option Label (adUnitsCalled ?st (adUnitCode (bs ! j))) = Some (labels_of cfg bs ! j)"
    using labels_invariant [OF assms(1,2), of cfg] assms(3,4) by blast+
  with assms(5) show ?thesis by simp
qed

lemma size_counter_counts:
  assumes "\<forall>r \<in> set bs. \<not> inherited_member (adUnitCode r)" "length bs < safe_limit"
  shows "size_counter (fst (build_imps cfg initial_labels bs)) sz = units_with_size bs sz"
  using labels_invariant [OF assms, of cfg] by blast

lemma size_counter_never_lowered:
  assumes "\<forall>r \<in> set (bs @ cs). \<not> inherited_member (adUnitCode r)" "length (bs @ cs) < safe_limit"
  shows "size_counter (fst (build_imps cfg initial_labels bs)) sz \<le>
         size_counter (fst (build_imps cfg initial_labels (bs @ cs))) sz"
proof -
  from assms have "\<forall>r \<in> set bs. \<not> inherited_member (adUnitCode r)" "length bs < safe_limit"
    by simp_all
  then show ?thesis
    using size_counter_counts [OF assms, of cfg sz] units_with_size_mono [of bs sz cs]
    by (simp add: size_counter_counts)
qed

text \<open>Three ad units, each seen once with the sizes of \<open>sized_slot\<close>, from empty maps.\<close>

lemma string_of_nat_300_250: "string_of_nat 300 = ''300''" "string_of_nat 250 = ''250''"
  by (simp_all add: string_of_nat.simps [of 300] string_of_nat.simps [of 30]
        string_of_nat.simps [of 3] string_of_nat.simps [of 250] string_of_nat.simps [of 25]
        string_of_nat.simps [of 2] digit_char_def)

lemma string_of_nat_Suc: "string_of_nat (Suc 0) = ''1''" "string_of_nat (Suc (Suc 0)) = ''2''"
  by (simp_all add: string_of_nat.simps [of "Suc 0"] string_of_nat.simps [of "Suc (Suc 0)"]
        digit_char_def)

lemma impSize_sized_slot: "impSize (sizes (sized_slot code)) = ''300x250''"
  by (simp add: sized_slot_def impSize_def round_double_small safe_limit_def join_x_def
        string_of_nat_300_250)

lemma adUnitCode_sized_slot: "adUnitCode (sized_slot code) = code"
  by (simp add: sized_slot_def)

lemma assign_pbsize_first:
  "assign_pbsize initial_labels ''div-1'' (sizes (sized_slot ''div-1'')) =
     (\<lparr>adUnitsCalled = [''div-1'' \<mapsto> ''300x250_1''], adSizesCalled = [''300x250'' \<mapsto> Suc 0]\<rparr>,
      Label ''300x250_1'')"
  by (simp add: assign_pbsize_def new_adunit_def impSize_sized_slot initial_labels_def
        inherited_member_def Object_prototype_members_def string_of_nat_Suc Let_def)

lemma assign_pbsize_constructor:
  "assign_pbsize \<lparr>adUnitsCalled = [''div-1'' \<mapsto> ''300x250_1''],
                   adSizesCalled = [''300x250'' \<mapsto> Suc 0]\<rparr>
     ''constructor'' (sizes (sized_slot ''constructor'')) =
     (\<lparr>adUnitsCalled = [''div-1'' \<mapsto> ''300x250_1''], adSizesCalled = [''300x250'' \<mapsto> Suc 0]\<rparr>,
      Inherited_member ''constructor'')"
  by (simp add: assign_pbsize_def inherited_member_def Object_prototype_members_def)

lemma assign_pbsize_third:
  "assign_pbsize \<lparr>adUnitsCalled = [''div-1'' \<mapsto> ''300x250_1''],
                   adSizesCalled = [''300x250'' \<mapsto> Suc 0]\<rparr>
     ''div-3'' (sizes (sized_slot ''div-3'')) =
     (\<lparr>adUnitsCalled = [''div-1'' \<mapsto> ''300x250_1'', ''div-3'' \<mapsto> ''300x250_2''],
        adSizesCalled = [''300x250'' \<mapsto> Suc (Suc 0)]\<rparr>,
      Label ''300x250_2'')"
  by (simp add: assign_pbsize_def new_adunit_def impSize_sized_slot inherited_member_def
        Object_prototype_members_def string_of_nat_Suc Let_def round_double_small safe_limit_def)

lemma build_imps_three_units:
  "fst (build_imps cfg initial_labels
          [sized_slot ''div-1'', sized_slot ''constructor'', sized_slot ''div-3'']) =
     \<lparr>adUnitsCalled = [''div-1'' \<mapsto> ''300x250_1'', ''div-3'' \<mapsto> ''300x250_2''],
        adSizesCalled = [''300x250'' \<mapsto> Suc (Suc 0)]\<rparr>"
  "map pbsize (snd (build_imps cfg initial_labels
          [sized_slot ''div-1'', sized_slot ''constructor'', sized_slot ''div-3''])) =
     [Label ''300x250_1'', Inherited_member ''constructor'', Label ''300x250_2'']"
  by (simp_all add: split_beta converter_imp_label adUnitCode_sized_slot assign_pbsize_first
        assign_pbsize_constructor assign_pbsize_third)

lemma units_with_size_three_units:
  "units_with_size [sized_slot ''div-1'', sized_slot ''constructor'', sized_slot ''div-3'']
     ''300x250'' = 3"
  by (simp add: units_with_size_def first_size_def adUnitCode_sized_slot impSize_sized_slot)

text \<open>
  Claim C5, for the ad units \<^verbatim>\<open>div-1\<close>, \<^verbatim>\<open>constructor\<close> and \<^verbatim>\<open>div-3\<close>, each seen once with
  the sizes 728x90, 300x250 and 320x50, from empty maps. The largest size is 300x250. The
  first ad unit gets the label \<^verbatim>\<open>300x250_1\<close>. The second is a new ad unit with that size and
  by the claim gets \<^verbatim>\<open>300x250_2\<close>: the test for a new ad unit reads the member
  \<^verbatim>\<open>constructor\<close> that the map inherits and takes the ad unit as seen, so the impression
  carries that member, the ad unit is not stored and not counted, and the third ad unit gets
  \<^verbatim>\<open>300x250_2\<close> where the claim gives it \<^verbatim>\<open>300x250_3\<close>: the counter stands at 2 after three
  ad units with that size.
\<close>

theorem inherited_adunit_code_gets_no_label:
  "impSize (sizes (sized_slot ''constructor'')) = ''300x250'' \<and>
   labels_of None [sized_slot ''div-1'', sized_slot ''constructor'', sized_slot ''div-3''] =
     [Label ''300x250_1'', Inherited_member ''constructor'', Label ''300x250_2''] \<and>
   adUnitsCalled (fst (build_imps None initial_labels
     [sized_slot ''div-1'', sized_slot ''constructor'', sized_slot ''div-3''])) ''constructor'' = None \<and>
   size_counter (fst (build_imps None initial_labels
     [sized_slot ''div-1'', sized_slot ''constructor'', sized_slot ''div-3''])) ''300x250'' = 2 \<and>
   units_with_size [sized_slot ''div-1'', sized_slot ''constructor'', sized_slot ''div-3'']
     ''300x250'' = 3"
  unfolding labels_of_def build_imps_three_units size_counter_def
  by (simp add: impSize_sized_slot units_with_size_three_units)

end
